theory Spec2Isabelle
  imports Complex_Main
begin

section \<open>JSON values and the JavaScript runtime\<close>

text \<open>
  A request body, as \<^verbatim>\<open>express.json()\<close> hands it to the handlers. \<open>JUndefined\<close> is what
  reading an absent property gives. Numbers are the finite doubles, read as rationals;
  strings are lists of code units.
\<close>

datatype json =
    JUndefined
  | JNull
  | JBool bool
  | JNum rat
  | JStr string
  | JArr "json list"
  | JObj "(string \<times> json) list"

text \<open>Property access \<^verbatim>\<open>data[key]\<close>; \<open>JObj\<close> lists the own properties of the object.\<close>

definition lookup :: "json \<Rightarrow> string \<Rightarrow> json" where
  "lookup j k = (case j of
       JObj kvs \<Rightarrow> (case map_of kvs k of Some v \<Rightarrow> v | None \<Rightarrow> JUndefined)
     | _ \<Rightarrow> JUndefined)"

text \<open>A value that may be \<^verbatim>\<open>undefined\<close> or \<^verbatim>\<open>null\<close>, and the operator \<^verbatim>\<open>x ?? null\<close>.\<close>

datatype 'a nullish = Undefined | Null | Value 'a

fun orNull :: "'a nullish \<Rightarrow> 'a option" where
  "orNull Undefined = None"
| "orNull Null = None"
| "orNull (Value v) = Some v"

text \<open>
  What the handlers take from outside the program, for one request:
  \<^item> \<open>localTZA\<close>: the offset of local time from UTC in milliseconds, as ECMAScript's
    \<^verbatim>\<open>LocalTZA(t, isUTC)\<close>: \<open>localTZA t True\<close> is the offset in force at the instant \<open>t\<close>,
    \<open>localTZA t False\<close> the offset by which the local time value \<open>t\<close> is read (the zone
    may change its offset, as with daylight saving);
  \<^item> \<open>newDate\<close>: the time value, in milliseconds, of \<^verbatim>\<open>new Date(v)\<close> for a JSON value,
    \<open>None\<close> for an Invalid Date;
  \<^item> \<open>clock\<close>: the time value of \<^verbatim>\<open>new Date()\<close>;
  \<^item> \<open>NOW\<close>: the value of SQL \<^verbatim>\<open>NOW()\<close>;
  \<^item> \<open>insertId\<close>: the identifier the store generates for an inserted request row;
  \<^item> \<open>fault\<close>: whether the n-th awaited call on the store rejects, and with which
    error message.
\<close>

record env =
  localTZA :: "int \<Rightarrow> bool \<Rightarrow> int"
  newDate :: "json \<Rightarrow> int option"
  clock :: int
  NOW :: string
  insertId :: nat
  fault :: "nat \<Rightarrow> string option"

definition is_int :: "rat \<Rightarrow> bool" where
  "is_int r = (of_int \<lfloor>r\<rfloor> = r)"

definition msPerDay :: int where
  "msPerDay = 86400000"

text \<open>
  ECMAScript's \<^verbatim>\<open>LocalTime(t)\<close>, the local time value of an instant, and \<^verbatim>\<open>UTC(t)\<close>, the
  instant of a local time value.
\<close>

definition LocalTime :: "env \<Rightarrow> int \<Rightarrow> int" where
  "LocalTime E t = t + localTZA E t True"

definition UTC :: "env \<Rightarrow> int \<Rightarrow> int" where
  "UTC E t = t - localTZA E t False"

text \<open>
  \<^verbatim>\<open>d.setHours(0, 0, 0, 0)\<close> on the time value \<open>t\<close>: the local time of \<open>t\<close> with its time
  within the day set to zero (\<^verbatim>\<open>MakeDate(Day(LocalTime(t)), 0)\<close>), taken back to an instant.
\<close>

definition setHours0 :: "env \<Rightarrow> int \<Rightarrow> int" where
  "setHours0 E t = UTC E (LocalTime E t - LocalTime E t mod msPerDay)"

text \<open>The whitespace and line terminators of \<^verbatim>\<open>String.prototype.trim\<close> among the code units below 256.\<close>

definition is_space :: "char \<Rightarrow> bool" where
  "is_space c = (of_char c \<in> {9, 10, 11, 12, 13, 32, 160 :: nat})"

definition trim :: "string \<Rightarrow> string" where
  "trim s = rev (dropWhile is_space (rev (dropWhile is_space s)))"


section \<open>schema.ts\<close>

subsection \<open>Issues and the schema combinators\<close>

datatype seg = Key string | Idx nat

datatype code =
    invalid_type
  | invalid_literal
  | invalid_enum_value
  | invalid_union_discriminator
  | invalid_date
  | too_small
  | custom string

type_synonym issue = "seg list \<times> code"

type_synonym 'a parsed = "issue list + 'a"

text \<open>Parsing the keys of an object collects the issues of every key.\<close>

fun ap :: "('a \<Rightarrow> 'b) parsed \<Rightarrow> 'a parsed \<Rightarrow> 'b parsed" where
  "ap (Inr f) (Inr x) = Inr (f x)"
| "ap (Inr f) (Inl e) = Inl e"
| "ap (Inl e) (Inr x) = Inl e"
| "ap (Inl e) (Inl e') = Inl (e @ e')"

fun issues_of :: "'a parsed \<Rightarrow> issue list" where
  "issues_of (Inl e) = e"
| "issues_of (Inr v) = []"

text \<open>A type with its checks: every failed check adds its issue.\<close>

definition run_checks :: "seg list \<Rightarrow> (('a \<Rightarrow> bool) \<times> code) list \<Rightarrow> 'a \<Rightarrow> 'a parsed" where
  "run_checks path cs v =
     (case [(path, snd c). c \<leftarrow> cs, \<not> fst c v] of [] \<Rightarrow> Inr v | i # is \<Rightarrow> Inl (i # is))"

definition z_string :: "((string \<Rightarrow> bool) \<times> code) list \<Rightarrow> seg list \<Rightarrow> json \<Rightarrow> string parsed" where
  "z_string cs path j = (case j of JStr s \<Rightarrow> run_checks path cs s | _ \<Rightarrow> Inl [(path, invalid_type)])"

definition z_number :: "((rat \<Rightarrow> bool) \<times> code) list \<Rightarrow> seg list \<Rightarrow> json \<Rightarrow> rat parsed" where
  "z_number cs path j = (case j of JNum r \<Rightarrow> run_checks path cs r | _ \<Rightarrow> Inl [(path, invalid_type)])"

definition z_boolean :: "seg list \<Rightarrow> json \<Rightarrow> bool parsed" where
  "z_boolean path j = (case j of JBool b \<Rightarrow> Inr b | _ \<Rightarrow> Inl [(path, invalid_type)])"

definition z_enum :: "string list \<Rightarrow> seg list \<Rightarrow> json \<Rightarrow> string parsed" where
  "z_enum vals path j = (case j of
       JStr s \<Rightarrow> if s \<in> set vals then Inr s else Inl [(path, invalid_enum_value)]
     | _ \<Rightarrow> Inl [(path, invalid_type)])"

definition z_literal :: "string \<Rightarrow> seg list \<Rightarrow> json \<Rightarrow> string parsed" where
  "z_literal lit path j = (if j = JStr lit then Inr lit else Inl [(path, invalid_literal)])"

text \<open>\<^verbatim>\<open>.min(1)\<close> on a string, \<^verbatim>\<open>.int()\<close>, \<^verbatim>\<open>.nonnegative()\<close> and \<^verbatim>\<open>.positive()\<close> on a number.\<close>

definition min1 :: "(string \<Rightarrow> bool) \<times> code" where
  "min1 = (\<lambda>s. 1 \<le> length s, too_small)"

definition int_check :: "(rat \<Rightarrow> bool) \<times> code" where
  "int_check = (is_int, invalid_type)"

definition nonnegative :: "(rat \<Rightarrow> bool) \<times> code" where
  "nonnegative = (\<lambda>r. 0 \<le> r, too_small)"

definition positive :: "(rat \<Rightarrow> bool) \<times> code" where
  "positive = (\<lambda>r. 0 < r, too_small)"

text \<open>\<^verbatim>\<open>.optional().nullable()\<close> and \<^verbatim>\<open>.nullable().optional()\<close>.\<close>

definition optional_nullable ::
  "(seg list \<Rightarrow> json \<Rightarrow> 'a parsed) \<Rightarrow> seg list \<Rightarrow> json \<Rightarrow> 'a nullish parsed" where
  "optional_nullable p path j = (case j of
       JUndefined \<Rightarrow> Inr Undefined
     | JNull \<Rightarrow> Inr Null
     | _ \<Rightarrow> (case p path j of Inl e \<Rightarrow> Inl e | Inr v \<Rightarrow> Inr (Value v)))"

text \<open>\<^verbatim>\<open>z.coerce.date()\<close>: the input goes through \<^verbatim>\<open>new Date\<close>; an Invalid Date is an issue.\<close>

definition z_coerce_date :: "env \<Rightarrow> seg list \<Rightarrow> json \<Rightarrow> int parsed" where
  "z_coerce_date E path j = (case newDate E j of None \<Rightarrow> Inl [(path, invalid_date)] | Some t \<Rightarrow> Inr t)"

text \<open>\<^verbatim>\<open>.refine(pred, message)\<close>: the predicate runs on a value that parsed.\<close>

definition refine :: "('a \<Rightarrow> bool) \<Rightarrow> string \<Rightarrow> (seg list \<Rightarrow> json \<Rightarrow> 'a parsed) \<Rightarrow> seg list \<Rightarrow> json \<Rightarrow> 'a parsed" where
  "refine pred msg p path j = (case p path j of
       Inl e \<Rightarrow> Inl e
     | Inr v \<Rightarrow> if pred v then Inr v else Inl [(path, custom msg)])"

text \<open>\<^verbatim>\<open>z.array(item).min(1)\<close>: the length issue comes first, then the issues of the items.\<close>

fun z_items :: "(seg list \<Rightarrow> json \<Rightarrow> 'a parsed) \<Rightarrow> seg list \<Rightarrow> nat \<Rightarrow> json list \<Rightarrow> 'a list parsed" where
  "z_items p path i [] = Inr []"
| "z_items p path i (x # xs) = ap (ap (Inr Cons) (p (path @ [Idx i]) x)) (z_items p path (Suc i) xs)"

definition z_array_min1 :: "(seg list \<Rightarrow> json \<Rightarrow> 'a parsed) \<Rightarrow> seg list \<Rightarrow> json \<Rightarrow> 'a list parsed" where
  "z_array_min1 p path j = (case j of
       JArr xs \<Rightarrow> ap (ap (Inr (\<lambda>u ys. ys)) (if length xs < 1 then Inl [(path, too_small)] else Inr ()))
                    (z_items p path 0 xs)
     | _ \<Rightarrow> Inl [(path, invalid_type)])"

text \<open>\<^verbatim>\<open>z.object\<close>: anything but an object is one issue; unknown keys are stripped.\<close>

definition z_object :: "seg list \<Rightarrow> json \<Rightarrow> 'a parsed \<Rightarrow> 'a parsed" where
  "z_object path j keys = (case j of JObj kvs \<Rightarrow> keys | _ \<Rightarrow> Inl [(path, invalid_type)])"

subsection \<open>The status-update schema\<close>

definition statusEnum :: "string list" where
  "statusEnum = [''New'', ''In Progress'', ''Completed'', ''Issue'']"

text \<open>The parsed body is the triple \<^verbatim>\<open>{ status, executor, note }\<close> the handler destructures.\<close>

definition requestStatusUpdateSchema :: "json \<Rightarrow> (string \<times> string nullish \<times> string nullish) parsed" where
  "requestStatusUpdateSchema j = z_object [] j
     (ap (ap (ap (Inr (\<lambda>s e n. (s, e, n)))
        (z_enum statusEnum [Key ''status''] (lookup j ''status'')))
        (optional_nullable (z_string [min1]) [Key ''executor''] (lookup j ''executor'')))
        (optional_nullable (z_string []) [Key ''note''] (lookup j ''note'')))"

subsection \<open>The request schemas\<close>

record base =
  username :: string
  taskPriority :: string
  dateOfRequest :: int
  facilityLocation :: "string nullish"
  receiverName :: "string nullish"
  qawrNumber :: "string nullish"
  jiraLink :: "string nullish"
  lotLocation :: "string nullish"
  attentionTo :: "string nullish"
  returnable :: "bool nullish"
  domesticInternational :: "string nullish"
  shippingAddress :: "string nullish"

text \<open>The keys of \<^verbatim>\<open>baseRequest\<close>, in the order of the schema.\<close>

definition baseRequest :: "env \<Rightarrow> seg list \<Rightarrow> json \<Rightarrow> base parsed" where
  "baseRequest E path j =
     ap (ap (ap (ap (ap (ap (ap (ap (ap (ap (ap (ap
       (Inr (\<lambda>u p d f r q l ll a rt di sa.
          \<lparr>username = u, taskPriority = p, dateOfRequest = d, facilityLocation = f,
           receiverName = r, qawrNumber = q, jiraLink = l, lotLocation = ll, attentionTo = a,
           returnable = rt, domesticInternational = di, shippingAddress = sa\<rparr>))
       (z_string [min1] (path @ [Key ''username'']) (lookup j ''username'')))
       (z_enum [''P1'', ''P2'', ''P3''] (path @ [Key ''taskPriority'']) (lookup j ''taskPriority'')))
       (z_coerce_date E (path @ [Key ''dateOfRequest'']) (lookup j ''dateOfRequest'')))
       (optional_nullable (z_string []) (path @ [Key ''facilityLocation'']) (lookup j ''facilityLocation'')))
       (optional_nullable (z_string []) (path @ [Key ''receiverName'']) (lookup j ''receiverName'')))
       (optional_nullable (z_string []) (path @ [Key ''qawrNumber'']) (lookup j ''qawrNumber'')))
       (optional_nullable (z_string []) (path @ [Key ''jiraLink'']) (lookup j ''jiraLink'')))
       (optional_nullable (z_string []) (path @ [Key ''lotLocation'']) (lookup j ''lotLocation'')))
       (optional_nullable (z_string []) (path @ [Key ''attentionTo'']) (lookup j ''attentionTo'')))
       (optional_nullable z_boolean (path @ [Key ''returnable'']) (lookup j ''returnable'')))
       (optional_nullable (z_enum [''Domestic'', ''International''])
          (path @ [Key ''domesticInternational'']) (lookup j ''domesticInternational'')))
       (optional_nullable (z_string []) (path @ [Key ''shippingAddress'']) (lookup j ''shippingAddress''))"

text \<open>Lots for Lot Transfer, Shipment and Scrap.\<close>

record lot =
  lotId :: string
  unitsQuantity :: "rat nullish"
  serialNumber :: "string nullish"

definition lotSchema :: "seg list \<Rightarrow> json \<Rightarrow> lot parsed" where
  "lotSchema path j = z_object path j
     (ap (ap (ap (Inr (\<lambda>i q s. \<lparr>lotId = i, unitsQuantity = q, serialNumber = s\<rparr>))
        (z_string [min1] (path @ [Key ''lotId'']) (lookup j ''lotId'')))
        (optional_nullable (z_number [int_check, nonnegative])
           (path @ [Key ''unitsQuantity'']) (lookup j ''unitsQuantity'')))
        (optional_nullable (z_string []) (path @ [Key ''serialNumber'']) (lookup j ''serialNumber'')))"

text \<open>Sampling lots; the lot identifier of a sampling lot is \<open>lotId_s\<close> here.\<close>

record samplingLot =
  lotId_s :: string
  unitQuantity :: rat
  reliabilityTest :: string
  testCondition :: string
  attributeToTag :: string

definition samplingLotSchema :: "seg list \<Rightarrow> json \<Rightarrow> samplingLot parsed" where
  "samplingLotSchema path j = z_object path j
     (ap (ap (ap (ap (ap
        (Inr (\<lambda>i q r t a. \<lparr>lotId_s = i, unitQuantity = q, reliabilityTest = r,
                            testCondition = t, attributeToTag = a\<rparr>))
        (z_string [min1] (path @ [Key ''lotId'']) (lookup j ''lotId'')))
        (z_number [int_check, positive] (path @ [Key ''unitQuantity'']) (lookup j ''unitQuantity'')))
        (z_string [min1] (path @ [Key ''reliabilityTest'']) (lookup j ''reliabilityTest'')))
        (z_string [min1] (path @ [Key ''testCondition'']) (lookup j ''testCondition'')))
        (z_string [min1] (path @ [Key ''attributeToTag'']) (lookup j ''attributeToTag'')))"

text \<open>
  The parsed request: one variant for each member of the union, with the keys the member
  adds to the base (the literal \<^verbatim>\<open>requestType\<close> is the constructor).
\<close>

datatype request_input =
    LotTransfer base "lot list"
  | ShipmentRequest base "lot list"
  | ScrapRequest base "lot list"
  | SamplingRequest base string int string "samplingLot list"

fun requestType :: "request_input \<Rightarrow> string" where
  "requestType (LotTransfer b ls) = ''Lot Transfer''"
| "requestType (ShipmentRequest b ls) = ''Shipment Request''"
| "requestType (ScrapRequest b ls) = ''Scrap Request''"
| "requestType (SamplingRequest b st qr pn sl) = ''Sampling Request''"

fun base_of :: "request_input \<Rightarrow> base" where
  "base_of (LotTransfer b ls) = b"
| "base_of (ShipmentRequest b ls) = b"
| "base_of (ScrapRequest b ls) = b"
| "base_of (SamplingRequest b st qr pn sl) = b"

definition lotTransferSchema :: "env \<Rightarrow> seg list \<Rightarrow> json \<Rightarrow> request_input parsed" where
  "lotTransferSchema E path j = z_object path j
     (ap (ap (ap (Inr (\<lambda>b t ls. LotTransfer b ls))
        (baseRequest E path j))
        (z_literal ''Lot Transfer'' (path @ [Key ''requestType'']) (lookup j ''requestType'')))
        (z_array_min1 lotSchema (path @ [Key ''lots'']) (lookup j ''lots'')))"

definition shipmentRequestSchema :: "env \<Rightarrow> seg list \<Rightarrow> json \<Rightarrow> request_input parsed" where
  "shipmentRequestSchema E path j = z_object path j
     (ap (ap (ap (Inr (\<lambda>b t ls. ShipmentRequest b ls))
        (baseRequest E path j))
        (z_literal ''Shipment Request'' (path @ [Key ''requestType'']) (lookup j ''requestType'')))
        (z_array_min1 lotSchema (path @ [Key ''lots'']) (lookup j ''lots'')))"

definition scrapRequestSchema :: "env \<Rightarrow> seg list \<Rightarrow> json \<Rightarrow> request_input parsed" where
  "scrapRequestSchema E path j = z_object path j
     (ap (ap (ap (Inr (\<lambda>b t ls. ScrapRequest b ls))
        (baseRequest E path j))
        (z_literal ''Scrap Request'' (path @ [Key ''requestType'']) (lookup j ''requestType'')))
        (z_array_min1 lotSchema (path @ [Key ''lots'']) (lookup j ''lots'')))"

text \<open>The predicate of the \<^verbatim>\<open>qrDate\<close> refinement: both dates at the start of their local day.\<close>

definition qrDate_ok :: "env \<Rightarrow> int \<Rightarrow> bool" where
  "qrDate_ok E d = (let t = setHours0 E (clock E); q = setHours0 E d in q \<ge> t)"

definition qrDate_schema :: "env \<Rightarrow> seg list \<Rightarrow> json \<Rightarrow> int parsed" where
  "qrDate_schema E = refine (qrDate_ok E) ''QR date cannot be in the past'' (z_coerce_date E)"

definition samplingRequestSchema :: "env \<Rightarrow> seg list \<Rightarrow> json \<Rightarrow> request_input parsed" where
  "samplingRequestSchema E path j = z_object path j
     (ap (ap (ap (ap (ap (ap (Inr (\<lambda>b t st qr pn sl. SamplingRequest b st qr pn sl))
        (baseRequest E path j))
        (z_literal ''Sampling Request'' (path @ [Key ''requestType'']) (lookup j ''requestType'')))
        (z_string [min1] (path @ [Key ''samplingType'']) (lookup j ''samplingType'')))
        (qrDate_schema E (path @ [Key ''qrDate'']) (lookup j ''qrDate'')))
        (z_string [min1] (path @ [Key ''projectName'']) (lookup j ''projectName'')))
        (z_array_min1 samplingLotSchema (path @ [Key ''samplingLots'']) (lookup j ''samplingLots'')))"

text \<open>
  \<^verbatim>\<open>z.discriminatedUnion("requestType", [...])\<close> and its \<^verbatim>\<open>safeParse\<close>: the member is
  chosen by the value of the discriminator; no member is one issue on the discriminator.
\<close>

definition requestSchema :: "env \<Rightarrow> json \<Rightarrow> request_input parsed" where
  "requestSchema E j = z_object [] j
     (let d = lookup j ''requestType'' in
      if d = JStr ''Lot Transfer'' then lotTransferSchema E [] j
      else if d = JStr ''Shipment Request'' then shipmentRequestSchema E [] j
      else if d = JStr ''Scrap Request'' then scrapRequestSchema E [] j
      else if d = JStr ''Sampling Request'' then samplingRequestSchema E [] j
      else Inl [([Key ''requestType''], invalid_union_discriminator)])"

section \<open>server.ts\<close>

subsection \<open>Formatting a date for the store\<close>

text \<open>
  The getters of a valid \<^verbatim>\<open>Date\<close> in local time: the civil date of the local day number
  (proleptic Gregorian calendar) and the time of day.
\<close>

definition civil :: "int \<Rightarrow> int \<times> int \<times> int" where
  "civil z0 =
     (let z = z0 + 719468;
          era = z div 146097;
          doe = z - era * 146097;
          yoe = (doe - doe div 1460 + doe div 36524 - doe div 146096) div 365;
          y = yoe + era * 400;
          doy = doe - (365 * yoe + yoe div 4 - yoe div 100);
          mp = (5 * doy + 2) div 153;
          d = doy - (153 * mp + 2) div 5 + 1;
          m = (if mp < 10 then mp + 3 else mp - 9)
      in (if m \<le> 2 then y + 1 else y, m, d))"

definition getFullYear :: "env \<Rightarrow> int \<Rightarrow> int" where
  "getFullYear E t = fst (civil (LocalTime E t div msPerDay))"

definition getMonth :: "env \<Rightarrow> int \<Rightarrow> int" where
  "getMonth E t = fst (snd (civil (LocalTime E t div msPerDay))) - 1"

definition getDate :: "env \<Rightarrow> int \<Rightarrow> int" where
  "getDate E t = snd (snd (civil (LocalTime E t div msPerDay)))"

definition getHours :: "env \<Rightarrow> int \<Rightarrow> int" where
  "getHours E t = (LocalTime E t mod msPerDay) div 3600000"

definition getMinutes :: "env \<Rightarrow> int \<Rightarrow> int" where
  "getMinutes E t = (LocalTime E t mod msPerDay) div 60000 mod 60"

definition getSeconds :: "env \<Rightarrow> int \<Rightarrow> int" where
  "getSeconds E t = (LocalTime E t mod msPerDay) div 1000 mod 60"

text \<open>The decimal digits of a number, as a template string prints it.\<close>

fun digits :: "nat \<Rightarrow> string" where
  "digits n = (if n < 10 then [''0123456789'' ! n]
               else digits (n div 10) @ [''0123456789'' ! (n mod 10)])"

definition show_int :: "int \<Rightarrow> string" where
  "show_int i = (if i < 0 then ''-'' @ digits (nat (- i)) else digits (nat i))"

definition pad :: "int \<Rightarrow> string" where
  "pad n = (if n < 10 then ''0'' @ show_int n else show_int n)"

text \<open>
  \<^verbatim>\<open>toMySqlDateTime(d)\<close> on a \<^verbatim>\<open>Date\<close> object, given by its time value (\<open>None\<close> when the
  time value is NaN). The handlers call it on \<^verbatim>\<open>Date\<close> objects only.
\<close>

definition toMySqlDateTime :: "env \<Rightarrow> int option \<Rightarrow> string option" where
  "toMySqlDateTime E d = (case d of
       None \<Rightarrow> None
     | Some t \<Rightarrow>
         (let yyyy = getFullYear E t;
              mm = pad (getMonth E t + 1);
              dd = pad (getDate E t);
              hh = pad (getHours E t);
              mi = pad (getMinutes E t);
              ss = pad (getSeconds E t)
          in Some (show_int yyyy @ ''-'' @ mm @ ''-'' @ dd @ '' '' @ hh @ '':'' @ mi @ '':'' @ ss)))"

subsection \<open>The store\<close>

text \<open>
  The rows of the four tables. A request row has the columns of the \<^verbatim>\<open>INSERT\<close> and of the
  \<^verbatim>\<open>UPDATE\<close> of the handlers; the columns \<^verbatim>\<open>id\<close>, \<^verbatim>\<open>username\<close> and \<^verbatim>\<open>returnable\<close> are
  \<open>id_col\<close>, \<open>username_col\<close> and \<open>returnable_col\<close> here. The rows of the other tables are the
  value lists of their \<^verbatim>\<open>INSERT\<close>s.
\<close>

record request_row =
  id_col :: nat
  username_col :: string
  request_type :: string
  task_priority :: string
  date_of_request :: "string option"
  facility_location :: "string option"
  receiver_name :: "string option"
  qawr_number :: "string option"
  jira_link :: "string option"
  lot_location :: "string option"
  attention_to :: "string option"
  returnable_col :: "bool option"
  domestic_international :: "string option"
  shipping_address :: "string option"
  sampling_type :: "string option"
  qr_date :: "string option"
  project_name :: "string option"
  created_at :: "string option"
  updated_at :: "string option"
  status :: "string option"
  executor :: "string option"
  issue_note :: "string option"
  started_at :: "string option"
  completed_at :: "string option"

type_synonym lot_row = "nat \<times> string \<times> rat option \<times> string option"

type_synonym sampling_lot_row = "nat \<times> string \<times> rat \<times> string \<times> string \<times> string"

type_synonym history_row = "rat \<times> string option \<times> string \<times> string option \<times> string option"

record database =
  requests :: "request_row list"
  lots :: "lot_row list"
  sampling_lots :: "sampling_lot_row list"
  request_status_history :: "history_row list"

text \<open>
  A pooled connection: the committed database, which every reader sees, the working copy
  of the open transaction, the calls made so far and, for each of them, the committed
  database when it returned. An awaited call rejects when the environment says so, and then
  has no effect; a statement works on the open transaction, and on the committed database
  when none is open.
\<close>

datatype call =
    GetConnection
  | BeginTransaction
  | InsertRequest
  | InsertLots
  | InsertSamplingLots
  | SelectStatus
  | UpdateRequest
  | InsertHistory
  | Commit
  | Rollback
  | Release

record session =
  committed :: database
  working :: "database option"
  trace :: "call list"
  seen :: "database list"

type_synonym 'a step = "session \<Rightarrow> session \<times> (string + 'a)"

definition observe :: "call \<Rightarrow> session \<Rightarrow> session" where
  "observe c s = s\<lparr>trace := trace s @ [c], seen := seen s @ [committed s]\<rparr>"

definition await :: "env \<Rightarrow> call \<Rightarrow> (session \<Rightarrow> session \<times> 'a) \<Rightarrow> 'a step" where
  "await E c f s =
     (case fault E (length (trace s)) of
        Some m \<Rightarrow> (observe c s, Inl m)
      | None \<Rightarrow> (let (s', r) = f s in (observe c s', Inr r)))"

definition statement :: "(database \<Rightarrow> database \<times> 'a) \<Rightarrow> session \<Rightarrow> session \<times> 'a" where
  "statement q s = (case working s of
       Some w \<Rightarrow> (let (w', r) = q w in (s\<lparr>working := Some w'\<rparr>, r))
     | None \<Rightarrow> (let (d', r) = q (committed s) in (s\<lparr>committed := d'\<rparr>, r)))"

definition getConnection :: "env \<Rightarrow> database \<Rightarrow> session \<times> (string + unit)" where
  "getConnection E d =
     await E GetConnection (\<lambda>s. (s, ())) \<lparr>committed = d, working = None, trace = [], seen = []\<rparr>"

definition beginTransaction :: "env \<Rightarrow> unit step" where
  "beginTransaction E = await E BeginTransaction (\<lambda>s. (s\<lparr>working := Some (committed s)\<rparr>, ()))"

definition commit :: "env \<Rightarrow> unit step" where
  "commit E = await E Commit
     (\<lambda>s. (case working s of Some w \<Rightarrow> s\<lparr>committed := w, working := None\<rparr> | None \<Rightarrow> s, ()))"

definition rollback :: "env \<Rightarrow> unit step" where
  "rollback E = await E Rollback (\<lambda>s. (s\<lparr>working := None\<rparr>, ()))"

definition release :: "session \<Rightarrow> session" where
  "release s = observe Release s"

text \<open>Sequencing inside \<^verbatim>\<open>try\<close>: a rejected call leaves the block with its error.\<close>

definition andThen :: "'a step \<Rightarrow> ('a \<Rightarrow> 'b step) \<Rightarrow> 'b step" where
  "andThen m k s = (case m s of (s', Inl e) \<Rightarrow> (s', Inl e) | (s', Inr v) \<Rightarrow> k v s')"

definition return :: "'a \<Rightarrow> 'a step" where
  "return v s = (s, Inr v)"

subsection \<open>Responses\<close>

datatype body =
    IdBody nat
  | OkBody
  | MessageBody string
  | IssuesBody string "issue list"

text \<open>
  What one run of a handler leaves: the response sent (\<open>None\<close> when the handler ends
  with an error of its own and sends nothing), the committed database, the calls made on
  the store with the committed database after each of them, the transaction still open on
  the connection when it goes back to the pool (\<open>None\<close> when none is open), and what
  \<^verbatim>\<open>console.error\<close> printed.
\<close>

record outcome =
  response :: "(nat \<times> body) option"
  store :: database
  calls :: "call list"
  observed :: "database list"
  open_transaction :: "database option"
  console :: "string list"

text \<open>The \<^verbatim>\<open>finally\<close> block releases the connection.\<close>

definition finally_release :: "(nat \<times> body) option \<Rightarrow> string list \<Rightarrow> session \<Rightarrow> outcome" where
  "finally_release r printed s =
     (let s' = release s in
      \<lparr>response = r, store = committed s', calls = trace s', observed = seen s',
       open_transaction = working s', console = printed\<rparr>)"

subsection \<open>Create request\<close>

text \<open>
  Modelled from the spec: the column defaults of the requests table, whose definition is not
  among the sources. A new request has the initial status \<^verbatim>\<open>New\<close>; the other workflow columns,
  which the \<^verbatim>\<open>INSERT\<close> does not name, are null.
\<close>

definition default_status :: "string option" where
  "default_status = Some ''New''"

fun samplingType_of :: "request_input \<Rightarrow> string option" where
  "samplingType_of (SamplingRequest b st qr pn sl) = Some st"
| "samplingType_of _ = None"

fun qrDate_of :: "env \<Rightarrow> request_input \<Rightarrow> string option" where
  "qrDate_of E (SamplingRequest b st qr pn sl) = toMySqlDateTime E (Some qr)"
| "qrDate_of E _ = None"

fun projectName_of :: "request_input \<Rightarrow> string option" where
  "projectName_of (SamplingRequest b st qr pn sl) = Some pn"
| "projectName_of _ = None"

definition new_request_row :: "env \<Rightarrow> request_input \<Rightarrow> request_row" where
  "new_request_row E data =
     \<lparr>id_col = insertId E,
      username_col = username (base_of data),
      request_type = requestType data,
      task_priority = taskPriority (base_of data),
      date_of_request = toMySqlDateTime E (Some (dateOfRequest (base_of data))),
      facility_location = orNull (facilityLocation (base_of data)),
      receiver_name = orNull (receiverName (base_of data)),
      qawr_number = orNull (qawrNumber (base_of data)),
      jira_link = orNull (jiraLink (base_of data)),
      lot_location = orNull (lotLocation (base_of data)),
      attention_to = orNull (attentionTo (base_of data)),
      returnable_col = orNull (returnable (base_of data)),
      domestic_international = orNull (domesticInternational (base_of data)),
      shipping_address = orNull (shippingAddress (base_of data)),
      sampling_type = samplingType_of data,
      qr_date = qrDate_of E data,
      project_name = projectName_of data,
      created_at = Some (NOW E),
      updated_at = Some (NOW E),
      status = default_status,
      executor = None,
      issue_note = None,
      started_at = None,
      completed_at = None\<rparr>"

definition insert_request :: "env \<Rightarrow> request_input \<Rightarrow> database \<Rightarrow> database \<times> nat" where
  "insert_request E data w = (w\<lparr>requests := requests w @ [new_request_row E data]\<rparr>, insertId E)"

text \<open>\<^verbatim>\<open>"lots" in data\<close>: the key that the three lot members of the union have.\<close>

fun lots_of :: "request_input \<Rightarrow> lot list option" where
  "lots_of (LotTransfer b ls) = Some ls"
| "lots_of (ShipmentRequest b ls) = Some ls"
| "lots_of (ScrapRequest b ls) = Some ls"
| "lots_of (SamplingRequest b st qr pn sl) = None"

fun samplingLots_of :: "request_input \<Rightarrow> samplingLot list option" where
  "samplingLots_of (SamplingRequest b st qr pn sl) = Some sl"
| "samplingLots_of _ = None"

definition lot_rows :: "nat \<Rightarrow> lot list \<Rightarrow> lot_row list" where
  "lot_rows requestId ls =
     map (\<lambda>l. (requestId, trim (lotId l), orNull (unitsQuantity l), orNull (serialNumber l))) ls"

definition sampling_lot_rows :: "nat \<Rightarrow> samplingLot list \<Rightarrow> sampling_lot_row list" where
  "sampling_lot_rows requestId sl =
     map (\<lambda>s. (requestId, trim (lotId_s s), unitQuantity s, trim (reliabilityTest s),
                trim (testCondition s), trim (attributeToTag s))) sl"

definition insert_lots :: "lot_row list \<Rightarrow> database \<Rightarrow> database \<times> unit" where
  "insert_lots rows w = (w\<lparr>lots := lots w @ rows\<rparr>, ())"

definition insert_sampling_lots :: "sampling_lot_row list \<Rightarrow> database \<Rightarrow> database \<times> unit" where
  "insert_sampling_lots rows w = (w\<lparr>sampling_lots := sampling_lots w @ rows\<rparr>, ())"

text \<open>The body of \<^verbatim>\<open>try\<close> in the handler of \<^verbatim>\<open>POST /api/requests\<close>, up to the commit.\<close>

definition create_tx :: "env \<Rightarrow> request_input \<Rightarrow> nat step" where
  "create_tx E data =
     andThen (beginTransaction E) (\<lambda>u.
     andThen (await E InsertRequest (statement (insert_request E data))) (\<lambda>requestId.
     andThen (case lots_of data of
                Some ls \<Rightarrow> if length ls > 0
                           then await E InsertLots (statement (insert_lots (lot_rows requestId ls)))
                           else return ()
              | None \<Rightarrow> return ()) (\<lambda>u.
     andThen (case samplingLots_of data of
                Some sl \<Rightarrow> if length sl \<noteq> 0
                           then await E InsertSamplingLots
                                  (statement (insert_sampling_lots (sampling_lot_rows requestId sl)))
                           else return ()
              | None \<Rightarrow> return ()) (\<lambda>u.
     andThen (commit E) (\<lambda>u.
     return requestId)))))"

definition post_requests :: "env \<Rightarrow> json \<Rightarrow> database \<Rightarrow> outcome" where
  "post_requests E reqbody d =
     (case requestSchema E reqbody of
        Inl issues \<Rightarrow>
          \<lparr>response = Some (400, IssuesBody ''Invalid payload'' issues),
           store = d, calls = [], observed = [], open_transaction = None,
           console = []\<rparr>
      | Inr data \<Rightarrow>
          (case getConnection E d of
             (s, Inl m) \<Rightarrow> \<lparr>response = None, store = committed s, calls = trace s,
                           observed = seen s, open_transaction = None, console = []\<rparr>
           | (s, Inr u) \<Rightarrow>
               (case create_tx E data s of
                  (s1, Inr requestId) \<Rightarrow> finally_release (Some (200, IdBody requestId)) [] s1
                | (s1, Inl err) \<Rightarrow>
                    (case rollback E s1 of
                       (s2, Inl m) \<Rightarrow> finally_release None [] s2
                     | (s2, Inr u) \<Rightarrow>
                         finally_release (Some (500, MessageBody ''Failed to save request'')) [err] s2))))"

subsection \<open>Update request status\<close>

text \<open>\<^verbatim>\<open>SELECT status FROM requests WHERE id = ?\<close>: the status column of the matching rows.\<close>

definition select_status :: "rat \<Rightarrow> database \<Rightarrow> database \<times> string option list" where
  "select_status rid w = (w, map status (filter (\<lambda>r. of_nat (id_col r) = rid) (requests w)))"

text \<open>\<^verbatim>\<open>COALESCE(column, ?)\<close>.\<close>

fun coalesce :: "'a option \<Rightarrow> 'a option \<Rightarrow> 'a option" where
  "coalesce (Some x) y = Some x"
| "coalesce None y = y"

text \<open>The assignments of the dynamic \<^verbatim>\<open>UPDATE\<close>, in the order the handler pushes them.\<close>

definition set_fields ::
  "string \<Rightarrow> string nullish \<Rightarrow> string nullish \<Rightarrow> string option \<Rightarrow> request_row \<Rightarrow> request_row" where
  "set_fields st ex note nowSQL r =
     (let r1 = r\<lparr>status := Some st, updated_at := nowSQL\<rparr>;
          r2 = (if ex \<noteq> Undefined then r1\<lparr>executor := orNull ex\<rparr> else r1);
          r3 = (if st = ''In Progress'' then r2\<lparr>started_at := coalesce (started_at r2) nowSQL\<rparr> else r2);
          r4 = (if st = ''Completed'' then r3\<lparr>completed_at := coalesce (completed_at r3) nowSQL\<rparr> else r3);
          r5 = (if st = ''Issue'' then r4\<lparr>issue_note := orNull note\<rparr> else r4)
      in r5)"

definition update_request ::
  "rat \<Rightarrow> string \<Rightarrow> string nullish \<Rightarrow> string nullish \<Rightarrow> string option \<Rightarrow> database \<Rightarrow> database \<times> unit" where
  "update_request rid st ex note nowSQL w =
     (w\<lparr>requests := map (\<lambda>r. if of_nat (id_col r) = rid then set_fields st ex note nowSQL r else r)
                        (requests w)\<rparr>, ())"

definition insert_history :: "history_row \<Rightarrow> database \<Rightarrow> database \<times> unit" where
  "insert_history h w = (w\<lparr>request_status_history := request_status_history w @ [h]\<rparr>, ())"

text \<open>
  The body of \<^verbatim>\<open>try\<close> in the handler of \<^verbatim>\<open>PATCH /api/requests/:id/status\<close>; its value is
  the response it sends.
\<close>

definition update_tx :: "env \<Rightarrow> rat \<Rightarrow> string \<Rightarrow> string nullish \<Rightarrow> string nullish \<Rightarrow> (nat \<times> body) step" where
  "update_tx E rid st ex note =
     andThen (beginTransaction E) (\<lambda>u.
     andThen (await E SelectStatus (statement (select_status rid))) (\<lambda>rows.
       case rows of
         [] \<Rightarrow> andThen (rollback E) (\<lambda>u. return (404, MessageBody ''Request not found''))
       | oldStatus # others \<Rightarrow>
           (let nowSQL = toMySqlDateTime E (Some (clock E)) in
            andThen (await E UpdateRequest (statement (update_request rid st ex note nowSQL))) (\<lambda>u.
            andThen (await E InsertHistory
                       (statement (insert_history (rid, oldStatus, st, orNull ex, orNull note)))) (\<lambda>u.
            andThen (commit E) (\<lambda>u.
            return (200, OkBody)))))))"

text \<open>
  The handler; \<open>idparam\<close> is \<^verbatim>\<open>Number(req.params.id)\<close>, \<open>None\<close> when that number is not
  finite.
\<close>

definition patch_status :: "env \<Rightarrow> rat option \<Rightarrow> json \<Rightarrow> database \<Rightarrow> outcome" where
  "patch_status E idparam reqbody d =
     (case idparam of
        None \<Rightarrow>
          \<lparr>response = Some (400, MessageBody ''Invalid id''),
           store = d, calls = [], observed = [], open_transaction = None, console = []\<rparr>
      | Some rid \<Rightarrow>
          (case requestStatusUpdateSchema reqbody of
             Inl issues \<Rightarrow>
               \<lparr>response = Some (400, IssuesBody ''Invalid payload'' issues),
                store = d, calls = [], observed = [], open_transaction = None,
                console = []\<rparr>
           | Inr (st, ex, note) \<Rightarrow>
               (case getConnection E d of
                  (s, Inl m) \<Rightarrow> \<lparr>response = None, store = committed s, calls = trace s,
                           observed = seen s, open_transaction = None, console = []\<rparr>
                | (s, Inr u) \<Rightarrow>
                    (case update_tx E rid st ex note s of
                       (s1, Inr r) \<Rightarrow> finally_release (Some r) [] s1
                     | (s1, Inl err) \<Rightarrow>
                         (case rollback E s1 of
                            (s2, Inl m) \<Rightarrow> finally_release None [] s2
                          | (s2, Inr u) \<Rightarrow>
                              finally_release (Some (500, MessageBody ''Failed to update status''))
                                [err] s2)))))"

section \<open>Notions used in the statements\<close>

text \<open>The database after a request and all its line items have been added to \<open>d\<close>.\<close>

definition with_request :: "env \<Rightarrow> request_input \<Rightarrow> database \<Rightarrow> database" where
  "with_request E data d =
     d\<lparr>requests := requests d @ [new_request_row E data],
       lots := lots d @ (case lots_of data of Some ls \<Rightarrow> lot_rows (insertId E) ls | None \<Rightarrow> []),
       sampling_lots := sampling_lots d @
         (case samplingLots_of data of Some sl \<Rightarrow> sampling_lot_rows (insertId E) sl | None \<Rightarrow> [])\<rparr>"




text \<open>A parsed request has line items of exactly one shape, and at least one.\<close>

definition one_shape :: "request_input \<Rightarrow> bool" where
  "one_shape data = (case (lots_of data, samplingLots_of data) of
      (Some ls, None) \<Rightarrow> 0 < length ls
    | (None, Some sl) \<Rightarrow> 0 < length sl
    | _ \<Rightarrow> False)"

text \<open>The request rows with the identifier \<open>rid\<close>, and the status the handler reads from them.\<close>

definition matching :: "rat \<Rightarrow> database \<Rightarrow> request_row list" where
  "matching rid d = filter (\<lambda>r. of_nat (id_col r) = rid) (requests d)"

definition old_status :: "rat \<Rightarrow> database \<Rightarrow> string option" where
  "old_status rid d = (case matching rid d of [] \<Rightarrow> None | r # rs \<Rightarrow> status r)"

text \<open>The timestamp of a status update, \<^verbatim>\<open>toMySqlDateTime(new Date())\<close>.\<close>

definition nowSQL :: "env \<Rightarrow> string option" where
  "nowSQL E = toMySqlDateTime E (Some (clock E))"

text \<open>The database after the row update and the history insert of one status update.\<close>

definition applied :: "env \<Rightarrow> rat \<Rightarrow> string \<Rightarrow> string nullish \<Rightarrow> string nullish \<Rightarrow> database \<Rightarrow> database" where
  "applied E rid st ex note d =
     d\<lparr>requests := map (\<lambda>r. if of_nat (id_col r) = rid then set_fields st ex note (nowSQL E) r else r)
                       (requests d),
       request_status_history :=
         request_status_history d @ [(rid, old_status rid d, st, orNull ex, orNull note)]\<rparr>"

subsection \<open>Examples\<close>

text \<open>
  An environment in which no call on the store fails and local time is UTC; \<^verbatim>\<open>new Date(n)\<close>
  of a whole number \<open>n\<close> has the time value \<open>n\<close>, and the examples give dates as numbers.
\<close>

definition ex_env :: env where
  "ex_env = \<lparr>localTZA = (\<lambda>t isUTC. 0), newDate = (\<lambda>j. case j of JNum r \<Rightarrow> Some \<lfloor>r\<rfloor> | _ \<Rightarrow> None),
     clock = 172800000, NOW = ''1970-01-03 00:00:00'', insertId = 1, fault = (\<lambda>n. None)\<rparr>"


text \<open>The store rejects the insert of the lots and then the rollback, the fifth call.\<close>

definition ex_env_rollback_fails :: env where
  "ex_env_rollback_fails = ex_env\<lparr>fault :=
     (\<lambda>n. if n = 3 then Some ''ER_DUP_ENTRY'' else if n = 4 then Some ''ER_QUERY_INTERRUPTED'' else None)\<rparr>"

definition ex_db :: database where
  "ex_db = \<lparr>requests = [], lots = [], sampling_lots = [], request_status_history = []\<rparr>"

definition ex_lot_transfer :: json where
  "ex_lot_transfer = JObj [(''username'', JStr ''alice''), (''requestType'', JStr ''Lot Transfer''),
     (''taskPriority'', JStr ''P1''), (''dateOfRequest'', JNum 86400000),
     (''lots'', JArr [JObj [(''lotId'', JStr ''L1''), (''unitsQuantity'', JNum 5)]])]"

definition ex_base :: base where
  "ex_base = \<lparr>username = ''alice'', taskPriority = ''P1'', dateOfRequest = 86400000,
     facilityLocation = Undefined, receiverName = Undefined, qawrNumber = Undefined,
     jiraLink = Undefined, lotLocation = Undefined, attentionTo = Undefined,
     returnable = Undefined, domesticInternational = Undefined, shippingAddress = Undefined\<rparr>"

definition ex_lot_transfer_data :: request_input where
  "ex_lot_transfer_data =
     LotTransfer ex_base [\<lparr>lotId = ''L1'', unitsQuantity = Value 5, serialNumber = Undefined\<rparr>]"



definition ex_invalid :: json where
  "ex_invalid = JObj [(''username'', JStr ''''), (''requestType'', JStr ''Scrap Request''),
     (''taskPriority'', JStr ''P9''), (''dateOfRequest'', JNum 86400000), (''lots'', JArr [])]"


text \<open>The status a body asks for, when the body is valid.\<close>

definition requested_status :: "json \<Rightarrow> string option" where
  "requested_status reqbody =
     (case requestStatusUpdateSchema reqbody of Inl e \<Rightarrow> None | Inr (st, ex, note) \<Rightarrow> Some st)"

text \<open>
  A sequence of status-update calls, each with its own environment, run one after the other
  on the store.
\<close>

fun run_updates :: "(env \<times> rat option \<times> json) list \<Rightarrow> database \<Rightarrow> database" where
  "run_updates [] d = d"
| "run_updates ((E, idp, reqbody) # cs) d = run_updates cs (store (patch_status E idp reqbody d))"

text \<open>
  The timestamps of the calls of such a sequence that succeed in moving the request \<open>rid\<close>
  into the status \<open>st\<close>, in the order of the calls.
\<close>

fun transitions :: "string \<Rightarrow> rat \<Rightarrow> (env \<times> rat option \<times> json) list \<Rightarrow> database \<Rightarrow> string option list" where
  "transitions st rid [] d = []"
| "transitions st rid ((E, idp, reqbody) # cs) d =
     (if response (patch_status E idp reqbody d) = Some (200, OkBody) \<and> idp = Some rid
         \<and> requested_status reqbody = Some st
      then [nowSQL E] else [])
     @ transitions st rid cs (store (patch_status E idp reqbody d))"

text \<open>The first of a list of timestamps, null when there is none.\<close>

fun first_of :: "string option list \<Rightarrow> string option" where
  "first_of [] = None"
| "first_of (t # ts) = t"

text \<open>
  What a status update may do to the row of the request: the status and the update time are
  set; the executor when the body has the key; the start time on entering \<^verbatim>\<open>In Progress\<close> and
  the completion time on entering \<^verbatim>\<open>Completed\<close>, when they are still null; the issue note on
  entering \<^verbatim>\<open>Issue\<close>.
\<close>

definition workflow_update ::
  "env \<Rightarrow> string \<Rightarrow> string nullish \<Rightarrow> string nullish \<Rightarrow> request_row \<Rightarrow> request_row" where
  "workflow_update E st ex note r =
     r\<lparr>status := Some st,
       updated_at := nowSQL E,
       executor := (if ex = Undefined then executor r else orNull ex),
       started_at := (if st = ''In Progress'' then coalesce (started_at r) (nowSQL E) else started_at r),
       completed_at := (if st = ''Completed'' then coalesce (completed_at r) (nowSQL E) else completed_at r),
       issue_note := (if st = ''Issue'' then orNull note else issue_note r)\<rparr>"

text \<open>Two rows agree on every column that is not a workflow column.\<close>

definition same_request_data :: "request_row \<Rightarrow> request_row \<Rightarrow> bool" where
  "same_request_data r r' =
     (id_col r' = id_col r \<and> username_col r' = username_col r
      \<and> request_type r' = request_type r \<and> task_priority r' = task_priority r
      \<and> date_of_request r' = date_of_request r \<and> facility_location r' = facility_location r
      \<and> receiver_name r' = receiver_name r \<and> qawr_number r' = qawr_number r
      \<and> jira_link r' = jira_link r \<and> lot_location r' = lot_location r
      \<and> attention_to r' = attention_to r \<and> returnable_col r' = returnable_col r
      \<and> domestic_international r' = domestic_international r
      \<and> shipping_address r' = shipping_address r \<and> sampling_type r' = sampling_type r
      \<and> qr_date r' = qr_date r \<and> project_name r' = project_name r
      \<and> created_at r' = created_at r)"

text \<open>The store after the request of \<open>ex_lot_transfer\<close> has been created, and three status updates.\<close>

definition ex_db1 :: database where
  "ex_db1 = with_request ex_env ex_lot_transfer_data ex_db"

definition ex_env_later :: env where
  "ex_env_later = ex_env\<lparr>clock := 259200000\<rparr>"

definition ex_in_progress :: json where
  "ex_in_progress = JObj [(''status'', JStr ''In Progress''), (''executor'', JStr ''bob'')]"

definition ex_completed :: json where
  "ex_completed = JObj [(''status'', JStr ''Completed'')]"

definition ex_issue :: json where
  "ex_issue = JObj [(''status'', JStr ''Issue''), (''note'', JStr ''damaged'')]"


text \<open>
  The lot identifiers of the line items of a payload, under the key \<open>key\<close> (\<^verbatim>\<open>lots\<close> or
  \<^verbatim>\<open>samplingLots\<close>), and the lot identifier column of the two tables of line items.
\<close>

definition payload_lot_ids :: "json \<Rightarrow> string \<Rightarrow> string list" where
  "payload_lot_ids j key = (case lookup j key of
       JArr xs \<Rightarrow> map (\<lambda>x. case lookup x ''lotId'' of JStr s \<Rightarrow> s | _ \<Rightarrow> []) xs
     | _ \<Rightarrow> [])"

definition lot_id_column :: "lot_row list \<Rightarrow> string list" where
  "lot_id_column rows = map (\<lambda>(request_id, lot_id, units_quantity, serial_number). lot_id) rows"

definition sampling_lot_id_column :: "sampling_lot_row list \<Rightarrow> string list" where
  "sampling_lot_id_column rows =
     map (\<lambda>(request_id, lot_id, unit_quantity, reliability_test, test_condition, attribute_to_tag). lot_id) rows"

text \<open>A payload whose only lot has an identifier of three spaces.\<close>

definition ex_blank_lot :: json where
  "ex_blank_lot = JObj [(''username'', JStr ''alice''), (''requestType'', JStr ''Lot Transfer''),
     (''taskPriority'', JStr ''P1''), (''dateOfRequest'', JNum 86400000),
     (''lots'', JArr [JObj [(''lotId'', JStr ''   ''), (''unitsQuantity'', JNum 5)]])]"

definition ex_blank_lot_data :: request_input where
  "ex_blank_lot_data =
     LotTransfer ex_base [\<lparr>lotId = ''   '', unitsQuantity = Value 5, serialNumber = Undefined\<rparr>]"



text \<open>Every issue of a result lies at \<open>path\<close> or below it.\<close>

definition located :: "seg list \<Rightarrow> 'a parsed \<Rightarrow> bool" where
  "located path r = (\<forall>i \<in> set (issues_of r). take (length path) (fst i) = path)"




text \<open>
  A zone that leaves daylight saving on 1 November 2026, at 06:00 UTC: four hours behind UTC
  before that instant, five hours behind from it on; a local time before 02:00 of that day,
  the repeated hour included, is read with the earlier offset. The clock is 23:30 of that
  local day (04:30 UTC of 2 November).
\<close>

definition ex_env_dst :: env where
  "ex_env_dst = ex_env\<lparr>localTZA :=
       (\<lambda>t isUTC. if isUTC then (if t < 1793512800000 then - 14400000 else - 18000000)
                   else (if t < 1793498400000 then - 14400000 else - 18000000)),
     clock := 1793593800000\<rparr>"



text \<open>Validation of a create-request payload succeeds.\<close>

definition accepts :: "env \<Rightarrow> json \<Rightarrow> bool" where
  "accepts E j = (case requestSchema E j of Inl issues \<Rightarrow> False | Inr data \<Rightarrow> True)"

text \<open>The optional descriptive fields that are strings: the key of the payload and the column.\<close>

definition descriptive_fields :: "(string \<times> (request_row \<Rightarrow> string option)) list" where
  "descriptive_fields =
     [(''facilityLocation'', facility_location), (''receiverName'', receiver_name),
      (''qawrNumber'', qawr_number), (''jiraLink'', jira_link), (''lotLocation'', lot_location),
      (''attentionTo'', attention_to), (''shippingAddress'', shipping_address)]"

text \<open>A payload whose facility is the empty string.\<close>

definition ex_empty_facility :: json where
  "ex_empty_facility = JObj [(''username'', JStr ''alice''), (''requestType'', JStr ''Lot Transfer''),
     (''taskPriority'', JStr ''P1''), (''dateOfRequest'', JNum 86400000),
     (''facilityLocation'', JStr ''''),
     (''lots'', JArr [JObj [(''lotId'', JStr ''L1''), (''unitsQuantity'', JNum 5)]])]"

definition ex_empty_facility_data :: request_input where
  "ex_empty_facility_data =
     LotTransfer (ex_base\<lparr>facilityLocation := Value ''''\<rparr>)
       [\<lparr>lotId = ''L1'', unitsQuantity = Value 5, serialNumber = Undefined\<rparr>]"





section \<open>Properties of the schemas\<close>

lemma ap_Inr_iff: "ap p q = Inr v \<longleftrightarrow> (\<exists>f x. p = Inr f \<and> q = Inr x \<and> v = f x)"
  by (cases p; cases q) auto

lemma z_items_length: "z_items p path i xs = Inr ys \<Longrightarrow> length ys = length xs"
  by (induction xs arbitrary: i ys) (auto simp: ap_Inr_iff)

lemma z_array_min1_Inr:
  "z_array_min1 p path j = Inr ys \<Longrightarrow>
     \<exists>xs. j = JArr xs \<and> z_items p path 0 xs = Inr ys \<and> length ys = length xs \<and> 0 < length ys"
  by (auto simp: z_array_min1_def ap_Inr_iff split: json.splits if_splits dest: z_items_length)

lemma z_object_Inr: "z_object path j k = Inr v \<Longrightarrow> k = Inr v"
  by (auto simp: z_object_def split: json.splits)

lemma requestSchema_children:
  assumes "requestSchema E j = Inr data"
  shows "(\<exists>ls xs. lots_of data = Some ls \<and> samplingLots_of data = None \<and> lookup j ''lots'' = JArr xs \<and> length ls = length xs \<and> 0 < length ls)
       \<or> (\<exists>sl xs. samplingLots_of data = Some sl \<and> lots_of data = None \<and> lookup j ''samplingLots'' = JArr xs \<and> length sl = length xs \<and> 0 < length sl)"
  using assms
  unfolding requestSchema_def Let_def
  apply (drule_tac z_object_Inr)
  apply (simp split: if_splits)
  apply (auto simp: lotTransferSchema_def shipmentRequestSchema_def scrapRequestSchema_def samplingRequestSchema_def ap_Inr_iff dest!: z_object_Inr z_array_min1_Inr)
  done

lemma requestSchema_one_shape: "requestSchema E j = Inr data \<Longrightarrow> one_shape data"
  by (drule requestSchema_children) (auto simp: one_shape_def)

lemma z_items_nth:
  "z_items p path i xs = Inr ys \<Longrightarrow> k < length xs \<Longrightarrow> p (path @ [Idx (i + k)]) (xs ! k) = Inr (ys ! k)"
proof (induction xs arbitrary: i ys k)
  case Nil
  then show ?case by simp
next
  case (Cons x xs)
  from Cons.prems(1) obtain y ys' where
    y: "p (path @ [Idx i]) x = Inr y" and r: "z_items p path (Suc i) xs = Inr ys'" and ys: "ys = y # ys'"
    by (auto simp: ap_Inr_iff)
  show ?case
  proof (cases k)
    case 0
    then show ?thesis by (simp add: y ys)
  next
    case (Suc k')
    with Cons.prems(2) have "k' < length xs" by simp
    from Cons.IH[OF r this] show ?thesis by (simp add: Suc ys)
  qed
qed

lemma run_checks_min1: "run_checks path [min1] s = Inr s' \<longleftrightarrow> (s' = s \<and> 1 \<le> length s)"
  by (auto simp: run_checks_def min1_def)

lemma z_string_min1_Inr: "z_string [min1] path v = Inr s \<longleftrightarrow> (v = JStr s \<and> 1 \<le> length s)"
  by (cases v) (auto simp: z_string_def run_checks_min1)

lemma lotSchema_lotId:
  assumes "lotSchema path x = Inr l"
  shows "lookup x ''lotId'' = JStr (lotId l) \<and> 1 \<le> length (lotId l)"
proof -
  from assms have "ap (ap (ap (Inr (\<lambda>i q s. \<lparr>lotId = i, unitsQuantity = q, serialNumber = s\<rparr>))
        (z_string [min1] (path @ [Key ''lotId'']) (lookup x ''lotId'')))
        (optional_nullable (z_number [int_check, nonnegative])
           (path @ [Key ''unitsQuantity'']) (lookup x ''unitsQuantity'')))
        (optional_nullable (z_string []) (path @ [Key ''serialNumber'']) (lookup x ''serialNumber'')) = Inr l"
    unfolding lotSchema_def by (rule z_object_Inr)
  then obtain i where "z_string [min1] (path @ [Key ''lotId'']) (lookup x ''lotId'') = Inr i" "lotId l = i"
    by (auto simp: ap_Inr_iff)
  then show ?thesis by (simp add: z_string_min1_Inr)
qed

lemma samplingLotSchema_lotId:
  assumes "samplingLotSchema path x = Inr l"
  shows "lookup x ''lotId'' = JStr (lotId_s l) \<and> 1 \<le> length (lotId_s l)"
proof -
  from assms have "ap (ap (ap (ap (ap
        (Inr (\<lambda>i q r t a. \<lparr>lotId_s = i, unitQuantity = q, reliabilityTest = r,
                            testCondition = t, attributeToTag = a\<rparr>))
        (z_string [min1] (path @ [Key ''lotId'']) (lookup x ''lotId'')))
        (z_number [int_check, positive] (path @ [Key ''unitQuantity'']) (lookup x ''unitQuantity'')))
        (z_string [min1] (path @ [Key ''reliabilityTest'']) (lookup x ''reliabilityTest'')))
        (z_string [min1] (path @ [Key ''testCondition'']) (lookup x ''testCondition'')))
        (z_string [min1] (path @ [Key ''attributeToTag'']) (lookup x ''attributeToTag'')) = Inr l"
    unfolding samplingLotSchema_def by (rule z_object_Inr)
  then obtain i where "z_string [min1] (path @ [Key ''lotId'']) (lookup x ''lotId'') = Inr i" "lotId_s l = i"
    by (auto simp: ap_Inr_iff)
  then show ?thesis by (simp add: z_string_min1_Inr)
qed


lemma requestSchema_lots:
  assumes "requestSchema E j = Inr data"
  shows "lots_of data = Some ls \<Longrightarrow>
           \<exists>xs. lookup j ''lots'' = JArr xs \<and> z_items lotSchema [Key ''lots''] 0 xs = Inr ls"
    and "samplingLots_of data = Some sl \<Longrightarrow>
           \<exists>xs. lookup j ''samplingLots'' = JArr xs \<and> z_items samplingLotSchema [Key ''samplingLots''] 0 xs = Inr sl"
  using assms
  unfolding requestSchema_def Let_def
  by (auto simp: lotTransferSchema_def shipmentRequestSchema_def scrapRequestSchema_def
      samplingRequestSchema_def ap_Inr_iff split: if_splits dest!: z_object_Inr z_array_min1_Inr)

lemma payload_lot_ids_lots:
  assumes "z_items lotSchema path 0 xs = Inr ls"
  shows "map (\<lambda>x. case lookup x ''lotId'' of JStr s \<Rightarrow> s | _ \<Rightarrow> []) xs = map lotId ls"
proof (rule nth_equalityI)
  show "length (map (\<lambda>x. case lookup x ''lotId'' of JStr s \<Rightarrow> s | _ \<Rightarrow> []) xs) = length (map lotId ls)"
    using z_items_length[OF assms] by simp
next
  fix k assume "k < length (map (\<lambda>x. case lookup x ''lotId'' of JStr s \<Rightarrow> s | _ \<Rightarrow> []) xs)"
  then have k: "k < length xs" by simp
  from z_items_nth[OF assms k] have "lotSchema (path @ [Idx k]) (xs ! k) = Inr (ls ! k)" by simp
  from lotSchema_lotId[OF this] k z_items_length[OF assms]
  show "map (\<lambda>x. case lookup x ''lotId'' of JStr s \<Rightarrow> s | _ \<Rightarrow> []) xs ! k = map lotId ls ! k"
    by simp
qed

lemma payload_lot_ids_sampling:
  assumes "z_items samplingLotSchema path 0 xs = Inr sl"
  shows "map (\<lambda>x. case lookup x ''lotId'' of JStr s \<Rightarrow> s | _ \<Rightarrow> []) xs = map lotId_s sl"
proof (rule nth_equalityI)
  show "length (map (\<lambda>x. case lookup x ''lotId'' of JStr s \<Rightarrow> s | _ \<Rightarrow> []) xs) = length (map lotId_s sl)"
    using z_items_length[OF assms] by simp
next
  fix k assume "k < length (map (\<lambda>x. case lookup x ''lotId'' of JStr s \<Rightarrow> s | _ \<Rightarrow> []) xs)"
  then have k: "k < length xs" by simp
  from z_items_nth[OF assms k] have "samplingLotSchema (path @ [Idx k]) (xs ! k) = Inr (sl ! k)" by simp
  from samplingLotSchema_lotId[OF this] k z_items_length[OF assms]
  show "map (\<lambda>x. case lookup x ''lotId'' of JStr s \<Rightarrow> s | _ \<Rightarrow> []) xs ! k = map lotId_s sl ! k"
    by simp
qed

lemma ex_blank_lot_valid: "requestSchema ex_env ex_blank_lot = Inr ex_blank_lot_data"
  by code_simp



lemma located_Inr: "located path (Inr v)"
  by (simp add: located_def)


lemma located_single: "located path (Inl [(path, c)])"
  by (simp add: located_def)










lemma located_z_coerce_date: "located path (z_coerce_date E path v)"
  by (simp add: z_coerce_date_def located_single located_Inr split: option.splits)


lemma located_refine: "located path (p path v) \<Longrightarrow> located path (refine pred msg p path v)"
  by (cases "p path v") (simp_all add: refine_def located_def)












lemma located_qrDate_schema: "located path (qrDate_schema E path v)"
  unfolding qrDate_schema_def by (rule located_refine) (rule located_z_coerce_date)








lemma isl_ap: "isl (ap p q) = (isl p \<or> isl q)"
  by (cases p; cases q) simp_all

lemma accepts_isl: "accepts E j = (\<not> isl (requestSchema E j))"
  by (cases "requestSchema E j") (simp_all add: accepts_def)

lemma lookup_Cons: "lookup (JObj ((k, v) # kvs)) k' = (if k' = k then v else lookup (JObj kvs) k')"
  by (simp add: lookup_def)

lemma opt_string_JStr: "optional_nullable (z_string []) path (JStr s) = Inr (Value s)"
  by (simp add: optional_nullable_def z_string_def run_checks_def)

lemma opt_JNull: "optional_nullable p path JNull = Inr Null"
  by (simp add: optional_nullable_def)

lemma opt_string_Inr:
  "optional_nullable (z_string []) path v = Inr x \<Longrightarrow>
     (case v of JUndefined \<Rightarrow> x = Undefined | JNull \<Rightarrow> x = Null | JStr s \<Rightarrow> x = Value s | _ \<Rightarrow> False)"
  by (cases v) (auto simp: optional_nullable_def z_string_def run_checks_def)

lemma descriptive_keys:
  assumes "(k, col) \<in> set descriptive_fields"
  shows "k = ''facilityLocation'' \<or> k = ''receiverName'' \<or> k = ''qawrNumber''
    \<or> k = ''jiraLink'' \<or> k = ''lotLocation'' \<or> k = ''attentionTo'' \<or> k = ''shippingAddress''"
proof -
  from assms have "fst (k, col) \<in> fst ` set descriptive_fields" by (rule imageI)
  then have "k \<in> set (map fst descriptive_fields)" by simp
  then show ?thesis
    unfolding descriptive_fields_def by simp
qed

lemma base_isl:
  assumes "(k, col) \<in> set descriptive_fields"
  shows "isl (baseRequest E path (JObj ((k, JStr s) # kvs))) = isl (baseRequest E path (JObj ((k, JNull) # kvs)))"
  using descriptive_keys[OF assms]
  by (elim disjE) (simp_all add: baseRequest_def isl_ap lookup_Cons opt_string_JStr opt_JNull)

lemma other_lookups:
  assumes "(k, col) \<in> set descriptive_fields"
  shows "lookup (JObj ((k, v) # kvs)) ''requestType'' = lookup (JObj kvs) ''requestType''"
    and "lookup (JObj ((k, v) # kvs)) ''lots'' = lookup (JObj kvs) ''lots''"
    and "lookup (JObj ((k, v) # kvs)) ''samplingType'' = lookup (JObj kvs) ''samplingType''"
    and "lookup (JObj ((k, v) # kvs)) ''qrDate'' = lookup (JObj kvs) ''qrDate''"
    and "lookup (JObj ((k, v) # kvs)) ''projectName'' = lookup (JObj kvs) ''projectName''"
    and "lookup (JObj ((k, v) # kvs)) ''samplingLots'' = lookup (JObj kvs) ''samplingLots''"
  using descriptive_keys[OF assms]
  by (elim disjE; simp add: lookup_Cons)+

lemma string_as_acceptable_as_null:
  assumes "(k, col) \<in> set descriptive_fields"
  shows "accepts E (JObj ((k, JStr s) # kvs)) = accepts E (JObj ((k, JNull) # kvs))"
  by (simp add: accepts_isl requestSchema_def z_object_def Let_def lotTransferSchema_def
      shipmentRequestSchema_def scrapRequestSchema_def samplingRequestSchema_def isl_ap
      other_lookups[OF assms] base_isl[OF assms])

lemma requestSchema_base:
  assumes "requestSchema E j = Inr data"
  shows "baseRequest E [] j = Inr (base_of data)"
  using assms
  unfolding requestSchema_def Let_def
  by (auto simp: lotTransferSchema_def shipmentRequestSchema_def scrapRequestSchema_def
      samplingRequestSchema_def ap_Inr_iff split: if_splits dest!: z_object_Inr)

lemma baseRequest_strings:
  assumes "baseRequest E path j = Inr b"
  shows "optional_nullable (z_string []) (path @ [Key ''facilityLocation'']) (lookup j ''facilityLocation'') = Inr (facilityLocation b)"
    and "optional_nullable (z_string []) (path @ [Key ''receiverName'']) (lookup j ''receiverName'') = Inr (receiverName b)"
    and "optional_nullable (z_string []) (path @ [Key ''qawrNumber'']) (lookup j ''qawrNumber'') = Inr (qawrNumber b)"
    and "optional_nullable (z_string []) (path @ [Key ''jiraLink'']) (lookup j ''jiraLink'') = Inr (jiraLink b)"
    and "optional_nullable (z_string []) (path @ [Key ''lotLocation'']) (lookup j ''lotLocation'') = Inr (lotLocation b)"
    and "optional_nullable (z_string []) (path @ [Key ''attentionTo'']) (lookup j ''attentionTo'') = Inr (attentionTo b)"
    and "optional_nullable (z_string []) (path @ [Key ''shippingAddress'']) (lookup j ''shippingAddress'') = Inr (shippingAddress b)"
  using assms
  by (auto simp: baseRequest_def ap_Inr_iff)

lemma descriptive_pairs:
  assumes "(k, col) \<in> set descriptive_fields"
  shows "(k = ''facilityLocation'' \<and> col = facility_location)
       \<or> (k = ''receiverName'' \<and> col = receiver_name)
       \<or> (k = ''qawrNumber'' \<and> col = qawr_number)
       \<or> (k = ''jiraLink'' \<and> col = jira_link)
       \<or> (k = ''lotLocation'' \<and> col = lot_location)
       \<or> (k = ''attentionTo'' \<and> col = attention_to)
       \<or> (k = ''shippingAddress'' \<and> col = shipping_address)"
  using assms unfolding descriptive_fields_def by simp

lemma stored_of_parsed:
  assumes "optional_nullable (z_string []) path v = Inr x"
  shows "case v of JUndefined \<Rightarrow> orNull x = None | JNull \<Rightarrow> orNull x = None
         | JStr s \<Rightarrow> orNull x = Some s | _ \<Rightarrow> False"
  using opt_string_Inr[OF assms] by (cases v) simp_all

lemma stored_descriptive:
  assumes "(k, col) \<in> set descriptive_fields" and "requestSchema E j = Inr data"
  shows "case lookup j k of
           JUndefined \<Rightarrow> col (new_request_row E data) = None
         | JNull \<Rightarrow> col (new_request_row E data) = None
         | JStr s \<Rightarrow> col (new_request_row E data) = Some s
         | _ \<Rightarrow> False"
proof -
  note b = baseRequest_strings[OF requestSchema_base[OF assms(2)]]
  from descriptive_pairs[OF assms(1)] show ?thesis
  proof (elim disjE conjE)
    assume kc: "k = ''facilityLocation''" "col = facility_location"
    have c: "facility_location (new_request_row E data) = orNull (facilityLocation (base_of data))"
      by (simp add: new_request_row_def)
    show ?thesis unfolding kc c by (rule stored_of_parsed[OF b(1)])
  next
    assume kc: "k = ''receiverName''" "col = receiver_name"
    have c: "receiver_name (new_request_row E data) = orNull (receiverName (base_of data))"
      by (simp add: new_request_row_def)
    show ?thesis unfolding kc c by (rule stored_of_parsed[OF b(2)])
  next
    assume kc: "k = ''qawrNumber''" "col = qawr_number"
    have c: "qawr_number (new_request_row E data) = orNull (qawrNumber (base_of data))"
      by (simp add: new_request_row_def)
    show ?thesis unfolding kc c by (rule stored_of_parsed[OF b(3)])
  next
    assume kc: "k = ''jiraLink''" "col = jira_link"
    have c: "jira_link (new_request_row E data) = orNull (jiraLink (base_of data))"
      by (simp add: new_request_row_def)
    show ?thesis unfolding kc c by (rule stored_of_parsed[OF b(4)])
  next
    assume kc: "k = ''lotLocation''" "col = lot_location"
    have c: "lot_location (new_request_row E data) = orNull (lotLocation (base_of data))"
      by (simp add: new_request_row_def)
    show ?thesis unfolding kc c by (rule stored_of_parsed[OF b(5)])
  next
    assume kc: "k = ''attentionTo''" "col = attention_to"
    have c: "attention_to (new_request_row E data) = orNull (attentionTo (base_of data))"
      by (simp add: new_request_row_def)
    show ?thesis unfolding kc c by (rule stored_of_parsed[OF b(6)])
  next
    assume kc: "k = ''shippingAddress''" "col = shipping_address"
    have c: "shipping_address (new_request_row E data) = orNull (shippingAddress (base_of data))"
      by (simp add: new_request_row_def)
    show ?thesis unfolding kc c by (rule stored_of_parsed[OF b(7)])
  qed
qed

lemma ex_empty_facility_valid: "requestSchema ex_env ex_empty_facility = Inr ex_empty_facility_data"
  by code_simp




lemma lookup_JNum_obj: "lookup x k = JNum r \<Longrightarrow> \<exists>kvs. x = JObj kvs"
  by (cases x) (simp_all add: lookup_def)









section \<open>Properties of the handlers\<close>

lemma await_None:
  "fault E (length (trace s)) = None \<Longrightarrow>
     await E c f s = (case f s of (s', r) \<Rightarrow> (observe c s', Inr r))"
  by (simp add: await_def)

lemma await_Some:
  "fault E (length (trace s)) = Some m \<Longrightarrow> await E c f s = (observe c s, Inl m)"
  by (simp add: await_def)

lemma first_fault:
  assumes "\<exists>n<b. fault E n \<noteq> None"
  obtains n m where "n < b" "\<forall>k<n. fault E k = None" "fault E n = Some m"
proof -
  from assms obtain n0 where n0: "n0 < b \<and> fault E n0 \<noteq> None" by blast
  define n where "n = (LEAST n. n < b \<and> fault E n \<noteq> None)"
  have P: "n < b \<and> fault E n \<noteq> None" unfolding n_def by (rule LeastI[of _ n0]) (rule n0)
  have least: "\<And>k. k < n \<Longrightarrow> \<not> (k < b \<and> fault E k \<noteq> None)"
    unfolding n_def by (rule not_less_Least)
  have "\<forall>k<n. fault E k = None"
  proof (intro allI impI)
    fix k assume "k < n"
    with least[of k] P show "fault E k = None" by auto
  qed
  moreover from P obtain m where "fault E n = Some m" by auto
  ultimately show thesis using P that by blast
qed

subsection \<open>Create request\<close>

lemmas tx_defs = create_tx_def andThen_def return_def beginTransaction_def commit_def rollback_def
  statement_def insert_request_def insert_lots_def insert_sampling_lots_def getConnection_def
  finally_release_def release_def observe_def

lemma post_requests_ok:
  assumes v: "requestSchema E reqbody = Inr data"
    and f: "\<forall>n<5. fault E n = None"
  shows "post_requests E reqbody d =
     \<lparr>response = Some (200, IdBody (insertId E)), store = with_request E data d,
      calls = [GetConnection, BeginTransaction, InsertRequest,
               if lots_of data = None then InsertSamplingLots else InsertLots, Commit, Release],
      observed = [d, d, d, d, with_request E data d, with_request E data d],
      open_transaction = None,
      console = []\<rparr>"
proof -
  have f0: "fault E 0 = None" and f1: "fault E (Suc 0) = None" and f2: "fault E (Suc (Suc 0)) = None"
    and f3: "fault E (Suc (Suc (Suc 0))) = None" and f4: "fault E (Suc (Suc (Suc (Suc 0)))) = None"
    using f by (simp_all add: eval_nat_numeral)
  from requestSchema_one_shape[OF v] show ?thesis
    by (auto simp: post_requests_def v tx_defs await_None f0 f1 f2 f3 f4 with_request_def one_shape_def
        split: option.splits)
qed

lemma less5_cases: "n < 5 \<Longrightarrow> n = 0 \<or> n = Suc 0 \<or> n = Suc (Suc 0) \<or> n = Suc (Suc (Suc 0)) \<or> n = Suc (Suc (Suc (Suc 0)))"
  by arith

lemma post_requests_fail:
  assumes v: "requestSchema E reqbody = Inr data"
    and n: "n < 5" and before: "\<forall>k<n. fault E k = None" and at: "fault E n = Some m"
  shows "store (post_requests E reqbody d) = d"
    and "response (post_requests E reqbody d) =
           (if n = 0 then None
            else if fault E (Suc n) = None then Some (500, MessageBody ''Failed to save request'')
            else None)"
    and "console (post_requests E reqbody d) = (if 0 < n \<and> fault E (Suc n) = None then [m] else [])"
proof -
  note shape = requestSchema_one_shape[OF v]
  let ?P = "store (post_requests E reqbody d) = d \<and>
     response (post_requests E reqbody d) =
           (if n = 0 then None
            else if fault E (Suc n) = None then Some (500, MessageBody ''Failed to save request'')
            else None) \<and>
     console (post_requests E reqbody d) = (if 0 < n \<and> fault E (Suc n) = None then [m] else [])"
  consider "n = 0" | "n = Suc 0" | "n = Suc (Suc 0)" | "n = Suc (Suc (Suc 0))" | "n = Suc (Suc (Suc (Suc 0)))"
    using less5_cases[OF n] by blast
  then have ?P
  proof cases
    case 1
    with at show ?thesis
      by (simp add: post_requests_def v getConnection_def await_Some observe_def)
  next
    case 2
    with before at have f: "fault E 0 = None" "fault E (Suc 0) = Some m" by simp_all
    show ?thesis
      by (cases "fault E (Suc (Suc 0))")
         (simp_all add: 2 post_requests_def v tx_defs await_None await_Some f)
  next
    case 3
    with before at have f: "fault E 0 = None" "fault E (Suc 0) = None" "fault E (Suc (Suc 0)) = Some m"
      by simp_all
    show ?thesis
      by (cases "fault E (Suc (Suc (Suc 0)))")
         (simp_all add: 3 post_requests_def v tx_defs await_None await_Some f)
  next
    case 4
    with before at have f: "fault E 0 = None" "fault E (Suc 0) = None" "fault E (Suc (Suc 0)) = None"
      "fault E (Suc (Suc (Suc 0))) = Some m"
      by simp_all
    from shape show ?thesis
      by (cases "fault E (Suc (Suc (Suc (Suc 0))))")
         (auto simp add: 4 post_requests_def v tx_defs await_None await_Some f one_shape_def split: option.splits)
  next
    case 5
    with before at have f: "fault E 0 = None" "fault E (Suc 0) = None" "fault E (Suc (Suc 0)) = None"
      "fault E (Suc (Suc (Suc 0))) = None" "fault E (Suc (Suc (Suc (Suc 0)))) = Some m"
      by simp_all
    from shape show ?thesis
      by (cases "fault E (Suc (Suc (Suc (Suc (Suc 0)))))")
         (auto simp add: 5 post_requests_def v tx_defs await_None await_Some f one_shape_def split: option.splits)
  qed
  then show "store (post_requests E reqbody d) = d"
    and "response (post_requests E reqbody d) =
           (if n = 0 then None
            else if fault E (Suc n) = None then Some (500, MessageBody ''Failed to save request'')
            else None)"
    and "console (post_requests E reqbody d) = (if 0 < n \<and> fault E (Suc n) = None then [m] else [])"
    by simp_all
qed

text \<open>The local times of the example with daylight saving, as the handlers print them.\<close>

lemma ex_env_dst_times:
  "toMySqlDateTime ex_env_dst (Some 1793506500000) = Some ''2026-11-01 00:15:00''"
  "toMySqlDateTime ex_env_dst (Some (clock ex_env_dst)) = Some ''2026-11-01 23:30:00''"
  "toMySqlDateTime ex_env_dst (Some 1793505599999) = Some ''2026-10-31 23:59:59''"
  by code_simp+

lemma ex_lot_transfer_valid: "requestSchema ex_env ex_lot_transfer = Inr ex_lot_transfer_data"
  by code_simp


lemma ex_invalid_issues: "requestSchema ex_env ex_invalid =
    Inl [([Key ''username''], too_small), ([Key ''taskPriority''], invalid_enum_value), ([Key ''lots''], too_small)]"
  by code_simp







lemma ex_lot_transfer_valid'': "requestSchema ex_env_rollback_fails ex_lot_transfer = Inr ex_lot_transfer_data"
  by code_simp

text \<open>
  The answers of the create handler: 400 with the issues and no call on the store for a
  payload that fails validation; 500 with the fixed message, the store's message on the
  console only, when a call of the unit fails and the rollback returns.
\<close>

lemma post_requests_answers:
  "(requestSchema E reqbody = Inl issues \<longrightarrow>
      post_requests E reqbody d =
        \<lparr>response = Some (400, IssuesBody ''Invalid payload'' issues), store = d, calls = [],
         observed = [], open_transaction = None, console = []\<rparr>)
   \<and> (requestSchema E reqbody = Inr data \<and> 0 < n \<and> n < 5 \<and> (\<forall>k<n. fault E k = None)
        \<and> fault E n = Some m \<and> fault E (Suc n) = None \<longrightarrow>
      response (post_requests E reqbody d) = Some (500, MessageBody ''Failed to save request'')
      \<and> console (post_requests E reqbody d) = [m]
      \<and> store (post_requests E reqbody d) = d)"
proof (intro conjI impI)
  assume "requestSchema E reqbody = Inl issues"
  then show "post_requests E reqbody d =
        \<lparr>response = Some (400, IssuesBody ''Invalid payload'' issues), store = d, calls = [],
         observed = [], open_transaction = None, console = []\<rparr>"
    by (simp add: post_requests_def)
next
  assume h: "requestSchema E reqbody = Inr data \<and> 0 < n \<and> n < 5 \<and> (\<forall>k<n. fault E k = None)
        \<and> fault E n = Some m \<and> fault E (Suc n) = None"
  then have v: "requestSchema E reqbody = Inr data" and n: "n < 5" and b: "\<forall>k<n. fault E k = None"
    and a: "fault E n = Some m" by simp_all
  from h post_requests_fail(2)[OF v n b a, of d]
  show "response (post_requests E reqbody d) = Some (500, MessageBody ''Failed to save request'')"
    by simp
  from h post_requests_fail(3)[OF v n b a, of d]
  show "console (post_requests E reqbody d) = [m]" by simp
  from post_requests_fail(1)[OF v n b a, of d]
  show "store (post_requests E reqbody d) = d" .
qed

subsection \<open>Update request status\<close>

lemmas patch_defs = update_tx_def andThen_def return_def beginTransaction_def commit_def rollback_def
  statement_def select_status_def update_request_def insert_history_def getConnection_def
  finally_release_def release_def observe_def

lemma less6_cases: "n < 6 \<Longrightarrow> n = 0 \<or> n = Suc 0 \<or> n = Suc (Suc 0) \<or> n = Suc (Suc (Suc 0)) \<or> n = Suc (Suc (Suc (Suc 0)))
   \<or> n = Suc (Suc (Suc (Suc (Suc 0))))"
  by arith

lemma patch_status_ok:
  assumes v: "requestStatusUpdateSchema reqbody = Inr (st, ex, note)"
    and m: "matching rid d \<noteq> []"
    and f: "\<forall>n<6. fault E n = None"
  shows "patch_status E (Some rid) reqbody d =
     \<lparr>response = Some (200, OkBody), store = applied E rid st ex note d,
      calls = [GetConnection, BeginTransaction, SelectStatus, UpdateRequest, InsertHistory, Commit, Release],
      observed = [d, d, d, d, d, applied E rid st ex note d, applied E rid st ex note d],
      open_transaction = None,
      console = []\<rparr>"
proof -
  have f': "fault E 0 = None" "fault E (Suc 0) = None" "fault E (Suc (Suc 0)) = None"
     "fault E (Suc (Suc (Suc 0))) = None" "fault E (Suc (Suc (Suc (Suc 0)))) = None"
     "fault E (Suc (Suc (Suc (Suc (Suc 0))))) = None"
    using f by (simp_all add: eval_nat_numeral)
  from m obtain r rs where rs: "filter (\<lambda>r. of_nat (id_col r) = rid) (requests d) = r # rs"
    by (auto simp: matching_def neq_Nil_conv)
  show ?thesis
    by (simp add: patch_status_def v patch_defs await_None f' rs applied_def old_status_def matching_def nowSQL_def)
qed

lemma patch_status_not_found:
  assumes v: "requestStatusUpdateSchema reqbody = Inr (st, ex, note)"
    and m: "matching rid d = []"
  shows "store (patch_status E (Some rid) reqbody d) = d"
    and "response (patch_status E (Some rid) reqbody d) \<noteq> Some (200, OkBody)"
    and "(\<forall>n<4. fault E n = None) \<Longrightarrow> patch_status E (Some rid) reqbody d =
       \<lparr>response = Some (404, MessageBody ''Request not found''), store = d,
        calls = [GetConnection, BeginTransaction, SelectStatus, Rollback, Release],
        observed = [d, d, d, d, d], open_transaction = None, console = []\<rparr>"
proof -
  have rs: "filter (\<lambda>r. of_nat (id_col r) = rid) (requests d) = []"
    using m by (simp add: matching_def)
  have "store (patch_status E (Some rid) reqbody d) = d \<and>
        response (patch_status E (Some rid) reqbody d) \<noteq> Some (200, OkBody)"
    by (cases "fault E 0"; cases "fault E (Suc 0)"; cases "fault E (Suc (Suc 0))";
        cases "fault E (Suc (Suc (Suc 0)))"; cases "fault E (Suc (Suc (Suc (Suc 0))))")
       (simp_all add: patch_status_def v patch_defs await_None await_Some rs)
  then show "store (patch_status E (Some rid) reqbody d) = d"
    and "response (patch_status E (Some rid) reqbody d) \<noteq> Some (200, OkBody)" by simp_all
  assume f: "\<forall>n<4. fault E n = None"
  have f': "fault E 0 = None" "fault E (Suc 0) = None" "fault E (Suc (Suc 0)) = None"
     "fault E (Suc (Suc (Suc 0))) = None"
    using f by (simp_all add: eval_nat_numeral)
  show "patch_status E (Some rid) reqbody d =
       \<lparr>response = Some (404, MessageBody ''Request not found''), store = d,
        calls = [GetConnection, BeginTransaction, SelectStatus, Rollback, Release],
        observed = [d, d, d, d, d], open_transaction = None, console = []\<rparr>"
    by (simp add: patch_status_def v patch_defs await_None f' rs)
qed

lemma patch_status_fail:
  assumes v: "requestStatusUpdateSchema reqbody = Inr (st, ex, note)"
    and n: "n < 6" and before: "\<forall>k<n. fault E k = None" and at: "fault E n = Some m"
  shows "store (patch_status E (Some rid) reqbody d) = d \<and>
         response (patch_status E (Some rid) reqbody d) \<noteq> Some (200, OkBody)"
proof (cases "matching rid d")
  case Nil
  then show ?thesis using patch_status_not_found(1,2)[OF v] by blast
next
  case (Cons r rs)
  then have rs: "filter (\<lambda>r. of_nat (id_col r) = rid) (requests d) = r # rs"
    by (simp add: matching_def)
  consider "n = 0" | "n = Suc 0" | "n = Suc (Suc 0)" | "n = Suc (Suc (Suc 0))" | "n = Suc (Suc (Suc (Suc 0)))"
    | "n = Suc (Suc (Suc (Suc (Suc 0))))"
    using less6_cases[OF n] by blast
  then show ?thesis
  proof cases
    case 1
    with at show ?thesis
      by (simp add: patch_status_def v getConnection_def await_Some observe_def)
  next
    case 2
    with before at have f: "fault E 0 = None" "fault E (Suc 0) = Some m" by simp_all
    show ?thesis
      by (cases "fault E (Suc (Suc 0))")
         (simp_all add: patch_status_def v patch_defs await_None await_Some f)
  next
    case 3
    with before at have f: "fault E 0 = None" "fault E (Suc 0) = None" "fault E (Suc (Suc 0)) = Some m"
      by simp_all
    show ?thesis
      by (cases "fault E (Suc (Suc (Suc 0)))")
         (simp_all add: patch_status_def v patch_defs await_None await_Some f)
  next
    case 4
    with before at have f: "fault E 0 = None" "fault E (Suc 0) = None" "fault E (Suc (Suc 0)) = None"
      "fault E (Suc (Suc (Suc 0))) = Some m"
      by simp_all
    show ?thesis
      by (cases "fault E (Suc (Suc (Suc (Suc 0))))")
         (simp_all add: patch_status_def v patch_defs await_None await_Some f rs)
  next
    case 5
    with before at have f: "fault E 0 = None" "fault E (Suc 0) = None" "fault E (Suc (Suc 0)) = None"
      "fault E (Suc (Suc (Suc 0))) = None" "fault E (Suc (Suc (Suc (Suc 0)))) = Some m"
      by simp_all
    show ?thesis
      by (cases "fault E (Suc (Suc (Suc (Suc (Suc 0)))))")
         (simp_all add: patch_status_def v patch_defs await_None await_Some f rs)
  next
    case 6
    with before at have f: "fault E 0 = None" "fault E (Suc 0) = None" "fault E (Suc (Suc 0)) = None"
      "fault E (Suc (Suc (Suc 0))) = None" "fault E (Suc (Suc (Suc (Suc 0)))) = None"
      "fault E (Suc (Suc (Suc (Suc (Suc 0))))) = Some m"
      by simp_all
    show ?thesis
      by (cases "fault E (Suc (Suc (Suc (Suc (Suc (Suc 0))))))")
         (simp_all add: patch_status_def v patch_defs await_None await_Some f rs)
  qed
qed

lemma patch_status_effect:
  shows "response (patch_status E idp reqbody d) = Some (200, OkBody) \<Longrightarrow>
           \<exists>rid st ex note. idp = Some rid \<and> requestStatusUpdateSchema reqbody = Inr (st, ex, note)
              \<and> matching rid d \<noteq> [] \<and> store (patch_status E idp reqbody d) = applied E rid st ex note d"
    and "response (patch_status E idp reqbody d) \<noteq> Some (200, OkBody) \<Longrightarrow>
           store (patch_status E idp reqbody d) = d"
proof -
  have "(response (patch_status E idp reqbody d) = Some (200, OkBody) \<and>
           (\<exists>rid st ex note. idp = Some rid \<and> requestStatusUpdateSchema reqbody = Inr (st, ex, note)
              \<and> matching rid d \<noteq> [] \<and> store (patch_status E idp reqbody d) = applied E rid st ex note d))
      \<or> (response (patch_status E idp reqbody d) \<noteq> Some (200, OkBody) \<and>
           store (patch_status E idp reqbody d) = d)"
  proof (cases idp)
    case None
    then show ?thesis by (simp add: patch_status_def)
  next
    case (Some rid)
    show ?thesis
    proof (cases "requestStatusUpdateSchema reqbody")
      case (Inl e)
      with Some show ?thesis by (simp add: patch_status_def)
    next
      case (Inr t)
      then obtain st ex nt where v: "requestStatusUpdateSchema reqbody = Inr (st, ex, nt)"
        by (cases t) auto
      show ?thesis
      proof (cases "\<forall>n<6. fault E n = None")
        case True
        show ?thesis
        proof (cases "matching rid d = []")
          case True
          from patch_status_not_found(1,2)[OF v True, of E] Some show ?thesis by simp
        next
          case False
          from patch_status_ok[OF v False True] Some v False show ?thesis by simp
        qed
      next
        case False
        then have "\<exists>n<6. fault E n \<noteq> None" by blast
        then obtain n m where "n < 6" "\<forall>k<n. fault E k = None" "fault E n = Some m"
          by (rule first_fault)
        from patch_status_fail[OF v this, of rid d] Some show ?thesis by simp
      qed
    qed
  qed
  then show "response (patch_status E idp reqbody d) = Some (200, OkBody) \<Longrightarrow>
           \<exists>rid st ex note. idp = Some rid \<and> requestStatusUpdateSchema reqbody = Inr (st, ex, note)
              \<and> matching rid d \<noteq> [] \<and> store (patch_status E idp reqbody d) = applied E rid st ex note d"
    and "response (patch_status E idp reqbody d) \<noteq> Some (200, OkBody) \<Longrightarrow>
           store (patch_status E idp reqbody d) = d"
    by blast+
qed

lemma set_fields_eq:
  "set_fields st ex note now r =
     r\<lparr>status := Some st, updated_at := now,
       executor := (if ex = Undefined then executor r else orNull ex),
       started_at := (if st = ''In Progress'' then coalesce (started_at r) now else started_at r),
       completed_at := (if st = ''Completed'' then coalesce (completed_at r) now else completed_at r),
       issue_note := (if st = ''Issue'' then orNull note else issue_note r)\<rparr>"
  by (simp add: set_fields_def Let_def)

lemma id_col_set_fields: "id_col (set_fields st ex note now r) = id_col r"
  by (simp add: set_fields_eq)

lemma filter_id_map:
  assumes "\<And>r. id_col (g r) = id_col r"
  shows "filter (\<lambda>r. of_nat (id_col r) = (rid::rat)) (map g xs) = map g (filter (\<lambda>r. of_nat (id_col r) = rid) xs)"
  by (induction xs) (simp_all add: assms)

lemma matching_applied:
  "matching rid (applied E rid' st ex note d) =
     map (\<lambda>r. if of_nat (id_col r) = rid' then set_fields st ex note (nowSQL E) r else r) (matching rid d)"
  unfolding matching_def applied_def
  by (simp add: filter_id_map id_col_set_fields)

lemma nowSQL_Some: "\<exists>s. nowSQL E = Some s"
  by (simp add: nowSQL_def toMySqlDateTime_def Let_def)

lemma requested_status_Inr:
  "requestStatusUpdateSchema reqbody = Inr (st, ex, nt) \<Longrightarrow> requested_status reqbody = Some st"
  by (simp add: requested_status_def)

lemma patch_status_row:
  assumes i: "i < length (requests d)"
  shows "length (requests (store (patch_status E idp reqbody d))) = length (requests d)"
    and "id_col (requests (store (patch_status E idp reqbody d)) ! i) = id_col (requests d ! i)"
    and "started_at (requests (store (patch_status E idp reqbody d)) ! i) =
          (if response (patch_status E idp reqbody d) = Some (200, OkBody)
              \<and> idp = Some (of_nat (id_col (requests d ! i)))
              \<and> requested_status reqbody = Some ''In Progress''
           then coalesce (started_at (requests d ! i)) (nowSQL E)
           else started_at (requests d ! i))"
    and "completed_at (requests (store (patch_status E idp reqbody d)) ! i) =
          (if response (patch_status E idp reqbody d) = Some (200, OkBody)
              \<and> idp = Some (of_nat (id_col (requests d ! i)))
              \<and> requested_status reqbody = Some ''Completed''
           then coalesce (completed_at (requests d ! i)) (nowSQL E)
           else completed_at (requests d ! i))"
proof -
  let ?o = "patch_status E idp reqbody d"
  let ?P = "length (requests (store ?o)) = length (requests d)
    \<and> id_col (requests (store ?o) ! i) = id_col (requests d ! i)
    \<and> started_at (requests (store ?o) ! i) =
          (if response ?o = Some (200, OkBody)
              \<and> idp = Some (of_nat (id_col (requests d ! i)))
              \<and> requested_status reqbody = Some ''In Progress''
           then coalesce (started_at (requests d ! i)) (nowSQL E)
           else started_at (requests d ! i))
    \<and> completed_at (requests (store ?o) ! i) =
          (if response ?o = Some (200, OkBody)
              \<and> idp = Some (of_nat (id_col (requests d ! i)))
              \<and> requested_status reqbody = Some ''Completed''
           then coalesce (completed_at (requests d ! i)) (nowSQL E)
           else completed_at (requests d ! i))"
  have ?P
  proof (cases "response ?o = Some (200, OkBody)")
    case False
    from patch_status_effect(2)[OF False] False show ?thesis by simp
  next
    case True
    from patch_status_effect(1)[OF True] obtain rid st ex nt where
      h: "idp = Some rid" "requestStatusUpdateSchema reqbody = Inr (st, ex, nt)"
         "store ?o = applied E rid st ex nt d" by blast
    from h(2) have rs: "requested_status reqbody = Some st" by (rule requested_status_Inr)
    from True h(1) have T: "response (patch_status E (Some rid) reqbody d) = Some (200, OkBody)" by simp
    from h(3) h(1) have S: "store (patch_status E (Some rid) reqbody d) = applied E rid st ex nt d" by simp
    show ?thesis
      using i by (simp add: h(1) T S rs applied_def set_fields_eq)
  qed
  then show "length (requests (store ?o)) = length (requests d)"
    and "id_col (requests (store ?o) ! i) = id_col (requests d ! i)"
    and "started_at (requests (store ?o) ! i) =
          (if response ?o = Some (200, OkBody)
              \<and> idp = Some (of_nat (id_col (requests d ! i)))
              \<and> requested_status reqbody = Some ''In Progress''
           then coalesce (started_at (requests d ! i)) (nowSQL E)
           else started_at (requests d ! i))"
    and "completed_at (requests (store ?o) ! i) =
          (if response ?o = Some (200, OkBody)
              \<and> idp = Some (of_nat (id_col (requests d ! i)))
              \<and> requested_status reqbody = Some ''Completed''
           then coalesce (completed_at (requests d ! i)) (nowSQL E)
           else completed_at (requests d ! i))"
    by simp_all
qed

lemma transitions_Some: "t \<in> set (transitions st rid cs d) \<Longrightarrow> \<exists>s. t = Some s"
proof (induction cs arbitrary: d)
  case Nil
  then show ?case by simp
next
  case (Cons c cs)
  obtain E idp reqbody where c: "c = (E, idp, reqbody)" by (cases c) auto
  from Cons.prems Cons.IH nowSQL_Some[of E] show ?case
    by (auto simp: c split: if_splits)
qed

lemma started_at_run:
  "i < length (requests d) \<Longrightarrow>
     started_at (requests (run_updates cs d) ! i) =
       (case started_at (requests d ! i) of
          Some t \<Rightarrow> Some t
        | None \<Rightarrow> first_of (transitions ''In Progress'' (of_nat (id_col (requests d ! i))) cs d))"
proof (induction cs arbitrary: d)
  case Nil
  then show ?case by (simp split: option.splits)
next
  case (Cons c cs)
  obtain E idp reqbody where c: "c = (E, idp, reqbody)" by (cases c) auto
  let ?d' = "store (patch_status E idp reqbody d)"
  note row = patch_status_row[OF Cons.prems, of E idp reqbody]
  from row(1) Cons.prems have i': "i < length (requests ?d')" by simp
  obtain s where s: "nowSQL E = Some s" using nowSQL_Some by blast
  define hit where "hit \<longleftrightarrow> response (patch_status E idp reqbody d) = Some (200, OkBody)
      \<and> idp = Some (of_nat (id_col (requests d ! i))) \<and> requested_status reqbody = Some ''In Progress''"
  have r: "started_at (requests ?d' ! i) =
      (if hit then coalesce (started_at (requests d ! i)) (nowSQL E) else started_at (requests d ! i))"
    using row(3) unfolding hit_def .
  have tr: "transitions ''In Progress'' (of_nat (id_col (requests d ! i))) (c # cs) d =
      (if hit then [nowSQL E] else []) @ transitions ''In Progress'' (of_nat (id_col (requests d ! i))) cs ?d'"
    unfolding c hit_def by (simp only: transitions.simps)
  have ru: "run_updates (c # cs) d = run_updates cs ?d'" by (simp add: c)
  have ih: "started_at (requests (run_updates cs ?d') ! i) =
      (case started_at (requests ?d' ! i) of
         Some t \<Rightarrow> Some t
       | None \<Rightarrow> first_of (transitions ''In Progress'' (of_nat (id_col (requests d ! i))) cs ?d'))"
    using Cons.IH[OF i'] unfolding row(2) .
  show ?case
    unfolding ru tr ih r
    by (cases hit; cases "started_at (requests d ! i)") (simp_all add: s)
qed

lemma completed_at_run:
  "i < length (requests d) \<Longrightarrow>
     completed_at (requests (run_updates cs d) ! i) =
       (case completed_at (requests d ! i) of
          Some t \<Rightarrow> Some t
        | None \<Rightarrow> first_of (transitions ''Completed'' (of_nat (id_col (requests d ! i))) cs d))"
proof (induction cs arbitrary: d)
  case Nil
  then show ?case by (simp split: option.splits)
next
  case (Cons c cs)
  obtain E idp reqbody where c: "c = (E, idp, reqbody)" by (cases c) auto
  let ?d' = "store (patch_status E idp reqbody d)"
  note row = patch_status_row[OF Cons.prems, of E idp reqbody]
  from row(1) Cons.prems have i': "i < length (requests ?d')" by simp
  obtain s where s: "nowSQL E = Some s" using nowSQL_Some by blast
  define hit where "hit \<longleftrightarrow> response (patch_status E idp reqbody d) = Some (200, OkBody)
      \<and> idp = Some (of_nat (id_col (requests d ! i))) \<and> requested_status reqbody = Some ''Completed''"
  have r: "completed_at (requests ?d' ! i) =
      (if hit then coalesce (completed_at (requests d ! i)) (nowSQL E) else completed_at (requests d ! i))"
    using row(4) unfolding hit_def .
  have tr: "transitions ''Completed'' (of_nat (id_col (requests d ! i))) (c # cs) d =
      (if hit then [nowSQL E] else []) @ transitions ''Completed'' (of_nat (id_col (requests d ! i))) cs ?d'"
    unfolding c hit_def by (simp only: transitions.simps)
  have ru: "run_updates (c # cs) d = run_updates cs ?d'" by (simp add: c)
  have ih: "completed_at (requests (run_updates cs ?d') ! i) =
      (case completed_at (requests ?d' ! i) of
         Some t \<Rightarrow> Some t
       | None \<Rightarrow> first_of (transitions ''Completed'' (of_nat (id_col (requests d ! i))) cs ?d'))"
    using Cons.IH[OF i'] unfolding row(2) .
  show ?case
    unfolding ru tr ih r
    by (cases hit; cases "completed_at (requests d ! i)") (simp_all add: s)
qed

lemma ex_in_progress_valid:
  "requestStatusUpdateSchema ex_in_progress = Inr (''In Progress'', Value ''bob'', Undefined)"
  by code_simp

lemma ex_completed_valid:
  "requestStatusUpdateSchema ex_completed = Inr (''Completed'', Undefined, Undefined)"
  by code_simp

lemma ex_issue_valid:
  "requestStatusUpdateSchema ex_issue = Inr (''Issue'', Undefined, Value ''damaged'')"
  by code_simp

lemma ex_db1_row: "requests ex_db1 = [new_request_row ex_env ex_lot_transfer_data]"
  "id_col (new_request_row ex_env ex_lot_transfer_data) = 1"
  "status (new_request_row ex_env ex_lot_transfer_data) = Some ''New''"
  "started_at (new_request_row ex_env ex_lot_transfer_data) = None"
  by (simp_all add: ex_db1_def with_request_def ex_db_def new_request_row_def ex_env_def default_status_def)

lemma ex_matching: "matching 1 ex_db1 = [new_request_row ex_env ex_lot_transfer_data]"
  by (simp add: matching_def ex_db1_row)

lemma ex_no_fault: "\<forall>n<6. fault ex_env n = None" "\<forall>n<6. fault ex_env_later n = None"
  by (simp_all add: ex_env_def ex_env_later_def)

lemma ex_first:
  "response (patch_status ex_env (Some 1) ex_in_progress ex_db1) = Some (200, OkBody)"
  "store (patch_status ex_env (Some 1) ex_in_progress ex_db1) =
     applied ex_env 1 ''In Progress'' (Value ''bob'') Undefined ex_db1"
  using patch_status_ok[OF ex_in_progress_valid _ ex_no_fault(1), of 1 ex_db1]
  by (simp_all add: ex_matching)

lemma ex_second:
  "response (patch_status ex_env_later (Some 1) ex_in_progress
      (applied ex_env 1 ''In Progress'' (Value ''bob'') Undefined ex_db1)) = Some (200, OkBody)"
  "store (patch_status ex_env_later (Some 1) ex_in_progress
      (applied ex_env 1 ''In Progress'' (Value ''bob'') Undefined ex_db1)) =
     applied ex_env_later 1 ''In Progress'' (Value ''bob'') Undefined
       (applied ex_env 1 ''In Progress'' (Value ''bob'') Undefined ex_db1)"
  using patch_status_ok[OF ex_in_progress_valid _ ex_no_fault(2), of 1
      "applied ex_env 1 ''In Progress'' (Value ''bob'') Undefined ex_db1"]
  by (simp_all add: matching_applied ex_matching)

lemma ex_transitions:
  "transitions ''In Progress'' 1
     [(ex_env, Some 1, ex_in_progress), (ex_env_later, Some 1, ex_in_progress)] ex_db1
   = [nowSQL ex_env, nowSQL ex_env_later]"
  by (simp add: ex_first ex_second requested_status_Inr[OF ex_in_progress_valid])

lemma ex_timestamps:
  "nowSQL ex_env = Some ''1970-01-03 00:00:00''"
  "nowSQL ex_env_later = Some ''1970-01-04 00:00:00''"
  by code_simp+

lemma ex_then_completed:
  "response (patch_status ex_env_later (Some 1) ex_completed
      (store (patch_status ex_env (Some 1) ex_in_progress ex_db1))) = Some (200, OkBody)"
  unfolding ex_first(2)
  using patch_status_ok[OF ex_completed_valid _ ex_no_fault(2), of 1
      "applied ex_env 1 ''In Progress'' (Value ''bob'') Undefined ex_db1"]
  by (simp add: matching_applied ex_matching)

lemma ex_issue_ok:
  "response (patch_status ex_env (Some 1) ex_issue ex_db1) = Some (200, OkBody)"
  using patch_status_ok[OF ex_issue_valid _ ex_no_fault(1), of 1 ex_db1]
  by (simp add: ex_matching)


lemma patch_status_not_found_observed:
  assumes v: "requestStatusUpdateSchema reqbody = Inr (st, ex, note)"
    and m: "matching rid d = []"
  shows "set (observed (patch_status E (Some rid) reqbody d)) \<subseteq> {d}"
proof -
  have rs: "filter (\<lambda>r. of_nat (id_col r) = rid) (requests d) = []"
    using m by (simp add: matching_def)
  show ?thesis
    by (cases "fault E 0"; cases "fault E (Suc 0)"; cases "fault E (Suc (Suc 0))";
        cases "fault E (Suc (Suc (Suc 0)))"; cases "fault E (Suc (Suc (Suc (Suc 0))))")
       (simp_all add: patch_status_def v patch_defs await_None await_Some rs)
qed

lemma patch_status_fail_observed:
  assumes v: "requestStatusUpdateSchema reqbody = Inr (st, ex, note)"
    and n: "n < 6" and before: "\<forall>k<n. fault E k = None" and at: "fault E n = Some m"
  shows "set (observed (patch_status E (Some rid) reqbody d)) \<subseteq> {d}"
proof (cases "matching rid d")
  case Nil
  then show ?thesis by (rule patch_status_not_found_observed[OF v])
next
  case (Cons r rs)
  then have rs: "filter (\<lambda>r. of_nat (id_col r) = rid) (requests d) = r # rs"
    by (simp add: matching_def)
  consider "n = 0" | "n = Suc 0" | "n = Suc (Suc 0)" | "n = Suc (Suc (Suc 0))" | "n = Suc (Suc (Suc (Suc 0)))"
    | "n = Suc (Suc (Suc (Suc (Suc 0))))"
    using less6_cases[OF n] by blast
  then show ?thesis
  proof cases
    case 1
    with at show ?thesis
      by (simp add: patch_status_def v getConnection_def await_Some observe_def)
  next
    case 2
    with before at have f: "fault E 0 = None" "fault E (Suc 0) = Some m" by simp_all
    show ?thesis
      by (cases "fault E (Suc (Suc 0))")
         (simp_all add: patch_status_def v patch_defs await_None await_Some f)
  next
    case 3
    with before at have f: "fault E 0 = None" "fault E (Suc 0) = None" "fault E (Suc (Suc 0)) = Some m"
      by simp_all
    show ?thesis
      by (cases "fault E (Suc (Suc (Suc 0)))")
         (simp_all add: patch_status_def v patch_defs await_None await_Some f)
  next
    case 4
    with before at have f: "fault E 0 = None" "fault E (Suc 0) = None" "fault E (Suc (Suc 0)) = None"
      "fault E (Suc (Suc (Suc 0))) = Some m"
      by simp_all
    show ?thesis
      by (cases "fault E (Suc (Suc (Suc (Suc 0))))")
         (simp_all add: patch_status_def v patch_defs await_None await_Some f rs)
  next
    case 5
    with before at have f: "fault E 0 = None" "fault E (Suc 0) = None" "fault E (Suc (Suc 0)) = None"
      "fault E (Suc (Suc (Suc 0))) = None" "fault E (Suc (Suc (Suc (Suc 0)))) = Some m"
      by simp_all
    show ?thesis
      by (cases "fault E (Suc (Suc (Suc (Suc (Suc 0)))))")
         (simp_all add: patch_status_def v patch_defs await_None await_Some f rs)
  next
    case 6
    with before at have f: "fault E 0 = None" "fault E (Suc 0) = None" "fault E (Suc (Suc 0)) = None"
      "fault E (Suc (Suc (Suc 0))) = None" "fault E (Suc (Suc (Suc (Suc 0)))) = None"
      "fault E (Suc (Suc (Suc (Suc (Suc 0))))) = Some m"
      by simp_all
    show ?thesis
      by (cases "fault E (Suc (Suc (Suc (Suc (Suc (Suc 0))))))")
         (simp_all add: patch_status_def v patch_defs await_None await_Some f rs)
  qed
qed

lemma patch_status_observed:
  "set (observed (patch_status E idp reqbody d)) \<subseteq> {d, store (patch_status E idp reqbody d)}"
proof (cases idp)
  case None
  then show ?thesis by (simp add: patch_status_def)
next
  case (Some rid)
  show ?thesis
  proof (cases "requestStatusUpdateSchema reqbody")
    case (Inl e)
    with Some show ?thesis by (simp add: patch_status_def)
  next
    case (Inr t)
    then obtain st ex nt where v: "requestStatusUpdateSchema reqbody = Inr (st, ex, nt)"
      by (cases t) auto
    show ?thesis
    proof (cases "\<forall>n<6. fault E n = None")
      case True
      show ?thesis
      proof (cases "matching rid d = []")
        case True
        from patch_status_not_found_observed[OF v True, of E] Some show ?thesis by blast
      next
        case False
        show ?thesis unfolding Some by (simp add: patch_status_ok[OF v False True])
      qed
    next
      case False
      then have "\<exists>n<6. fault E n \<noteq> None" by blast
      then obtain n m where "n < 6" "\<forall>k<n. fault E k = None" "fault E n = Some m"
        by (rule first_fault)
      from patch_status_fail_observed[OF v this, of rid d] Some show ?thesis by blast
    qed
  qed
qed

section \<open>The claims\<close>




text \<open>
  C2. The handler does not answer every failure inside the unit. For a valid payload, the
  insert of the lots fails and the store then rejects the rollback that the catch block
  awaits: that rejection leaves the catch block before the 500 response is sent. The handler
  releases the connection, sends no response and prints nothing.
\<close>

theorem post_requests_rollback_rejected:
  "requestSchema ex_env_rollback_fails ex_lot_transfer = Inr ex_lot_transfer_data
   \<and> fault ex_env_rollback_fails 3 = Some ''ER_DUP_ENTRY''
   \<and> fault ex_env_rollback_fails 4 = Some ''ER_QUERY_INTERRUPTED''
   \<and> response (post_requests ex_env_rollback_fails ex_lot_transfer ex_db) = None
   \<and> console (post_requests ex_env_rollback_fails ex_lot_transfer ex_db) = []
   \<and> store (post_requests ex_env_rollback_fails ex_lot_transfer ex_db) = ex_db"
proof -
  have h: "(3::nat) < 5" "\<forall>k<3. fault ex_env_rollback_fails k = None"
    "fault ex_env_rollback_fails 3 = Some ''ER_DUP_ENTRY''"
    by (simp_all add: ex_env_rollback_fails_def)
  have r: "fault ex_env_rollback_fails (Suc 3) = Some ''ER_QUERY_INTERRUPTED''"
    by (simp add: ex_env_rollback_fails_def)
  from post_requests_fail(1)[OF ex_lot_transfer_valid'' h, of ex_db]
    post_requests_fail(2)[OF ex_lot_transfer_valid'' h, of ex_db]
    post_requests_fail(3)[OF ex_lot_transfer_valid'' h, of ex_db] r h(3)
  show ?thesis by (simp add: ex_lot_transfer_valid'')
qed

text \<open>
  C3. Through any sequence of status updates, with any failures of the store, the start time
  of a request row is the one it had when it had one, and otherwise the timestamp of the first
  call of the sequence that succeeds in moving the request into \<^verbatim>\<open>In Progress\<close> (null when
  there is none): it is set on the first such transition and no later transition changes it.
  The same holds for the completion time and \<^verbatim>\<open>Completed\<close>. Every such timestamp is a
  date, not null.
\<close>

theorem timestamps_set_once:
  assumes "i < length (requests d)"
  shows "started_at (requests (run_updates cs d) ! i) =
           (case started_at (requests d ! i) of
              Some t \<Rightarrow> Some t
            | None \<Rightarrow> first_of (transitions ''In Progress'' (of_nat (id_col (requests d ! i))) cs d))
       \<and> completed_at (requests (run_updates cs d) ! i) =
           (case completed_at (requests d ! i) of
              Some t \<Rightarrow> Some t
            | None \<Rightarrow> first_of (transitions ''Completed'' (of_nat (id_col (requests d ! i))) cs d))
       \<and> (\<forall>st rid. \<forall>t \<in> set (transitions st rid cs d). \<exists>s. t = Some s)"
  using started_at_run[OF assms] completed_at_run[OF assms] transitions_Some by blast

theorem timestamps_set_once_witness:
  "started_at (requests (run_updates
      [(ex_env, Some 1, ex_in_progress), (ex_env_later, Some 1, ex_in_progress)] ex_db1) ! 0)
     = Some ''1970-01-03 00:00:00''"
proof -
  have "0 < length (requests ex_db1)" by (simp add: ex_db1_row)
  from timestamps_set_once[OF this,
      of "[(ex_env, Some 1, ex_in_progress), (ex_env_later, Some 1, ex_in_progress)]"]
  have e: "started_at (requests (run_updates
      [(ex_env, Some 1, ex_in_progress), (ex_env_later, Some 1, ex_in_progress)] ex_db1) ! 0) =
      (case started_at (requests ex_db1 ! 0) of
              Some t \<Rightarrow> Some t
            | None \<Rightarrow> first_of (transitions ''In Progress'' (of_nat (id_col (requests ex_db1 ! 0)))
                [(ex_env, Some 1, ex_in_progress), (ex_env_later, Some 1, ex_in_progress)] ex_db1))"
    by (rule conjunct1)
  show ?thesis
    unfolding e ex_db1_row(1) nth_Cons_0 ex_db1_row(4) option.case ex_db1_row(2) of_nat_1 ex_transitions
    by (simp add: ex_timestamps)
qed

text \<open>
  C4. A status update for an identifier that no request row has leaves the database as it
  was, whatever the body and whatever fails: no row is updated and no history row is inserted.
  When the body is valid and the calls on the store complete, the response is 404 with the
  message \<^verbatim>\<open>Request not found\<close>, after the select and a rollback, and nothing else.
\<close>

theorem unknown_id_not_found:
  assumes "matching rid d = []"
  shows "store (patch_status E (Some rid) reqbody d) = d
       \<and> (requestStatusUpdateSchema reqbody = Inr (st, ex, note) \<and> (\<forall>n<4. fault E n = None) \<longrightarrow>
            patch_status E (Some rid) reqbody d =
              \<lparr>response = Some (404, MessageBody ''Request not found''), store = d,
               calls = [GetConnection, BeginTransaction, SelectStatus, Rollback, Release],
               observed = [d, d, d, d, d], open_transaction = None, console = []\<rparr>)"
proof (intro conjI impI)
  show "store (patch_status E (Some rid) reqbody d) = d"
  proof (cases "requestStatusUpdateSchema reqbody")
    case (Inl e)
    then show ?thesis by (simp add: patch_status_def)
  next
    case (Inr t)
    then obtain st' ex' nt' where "requestStatusUpdateSchema reqbody = Inr (st', ex', nt')"
      by (cases t) auto
    then show ?thesis using assms by (rule patch_status_not_found(1))
  qed
next
  assume h: "requestStatusUpdateSchema reqbody = Inr (st, ex, note) \<and> (\<forall>n<4. fault E n = None)"
  then have v: "requestStatusUpdateSchema reqbody = Inr (st, ex, note)" and f: "\<forall>n<4. fault E n = None"
    by simp_all
  from patch_status_not_found(3)[OF v assms f]
  show "patch_status E (Some rid) reqbody d =
              \<lparr>response = Some (404, MessageBody ''Request not found''), store = d,
               calls = [GetConnection, BeginTransaction, SelectStatus, Rollback, Release],
               observed = [d, d, d, d, d], open_transaction = None, console = []\<rparr>" .
qed

theorem unknown_id_not_found_witness:
  "patch_status ex_env (Some 2) ex_issue ex_db1 =
     \<lparr>response = Some (404, MessageBody ''Request not found''), store = ex_db1,
      calls = [GetConnection, BeginTransaction, SelectStatus, Rollback, Release],
      observed = [ex_db1, ex_db1, ex_db1, ex_db1, ex_db1], open_transaction = None, console = []\<rparr>"
proof -
  have m: "matching 2 ex_db1 = []" by (simp add: matching_def ex_db1_row)
  have "requestStatusUpdateSchema ex_issue = Inr (''Issue'', Undefined, Value ''damaged'')
      \<and> (\<forall>n<4. fault ex_env n = None)"
    using ex_issue_valid by (simp add: ex_env_def)
  with unknown_id_not_found[OF m, of ex_env ex_issue "''Issue''" Undefined "Value ''damaged''"]
  show ?thesis by blast
qed

text \<open>
  C5. A status update that answers 200 has appended exactly one history row, with the
  status read from the request at the start of the unit, the requested status, the executor
  and the note, together with the update of the request rows; an update that does not answer
  200 has changed nothing, and after every call of the handler the committed database is the
  one before or the final one. Hence moving a request that is \<^verbatim>\<open>New\<close> to \<^verbatim>\<open>In Progress\<close> and
  then to \<^verbatim>\<open>Completed\<close> appends the two rows (New, In Progress) and (In Progress, Completed),
  in that order.
\<close>

theorem status_update_history:
  "(response (patch_status E idp reqbody d) = Some (200, OkBody) \<longrightarrow>
      (\<exists>rid st ex note. idp = Some rid \<and> requestStatusUpdateSchema reqbody = Inr (st, ex, note)
         \<and> request_status_history (store (patch_status E idp reqbody d)) =
             request_status_history d @ [(rid, old_status rid d, st, orNull ex, orNull note)]
         \<and> requests (store (patch_status E idp reqbody d)) =
             map (\<lambda>r. if of_nat (id_col r) = rid then set_fields st ex note (nowSQL E) r else r)
               (requests d)))
   \<and> (response (patch_status E idp reqbody d) \<noteq> Some (200, OkBody) \<longrightarrow>
        store (patch_status E idp reqbody d) = d)
   \<and> (\<forall>db \<in> set (observed (patch_status E idp reqbody d)).
        db = d \<or> db = store (patch_status E idp reqbody d))
   \<and> (matching rid d = r # rs \<and> status r = Some ''New''
        \<and> requestStatusUpdateSchema b1 = Inr (''In Progress'', ex1, n1)
        \<and> requestStatusUpdateSchema b2 = Inr (''Completed'', ex2, n2)
        \<and> response (patch_status E1 (Some rid) b1 d) = Some (200, OkBody)
        \<and> response (patch_status E2 (Some rid) b2 (store (patch_status E1 (Some rid) b1 d)))
             = Some (200, OkBody) \<longrightarrow>
        request_status_history
          (store (patch_status E2 (Some rid) b2 (store (patch_status E1 (Some rid) b1 d)))) =
        request_status_history d @
          [(rid, Some ''New'', ''In Progress'', orNull ex1, orNull n1),
           (rid, Some ''In Progress'', ''Completed'', orNull ex2, orNull n2)])"
proof (intro conjI impI)
  assume "response (patch_status E idp reqbody d) = Some (200, OkBody)"
  from patch_status_effect(1)[OF this]
  show "\<exists>rid st ex note. idp = Some rid \<and> requestStatusUpdateSchema reqbody = Inr (st, ex, note)
         \<and> request_status_history (store (patch_status E idp reqbody d)) =
             request_status_history d @ [(rid, old_status rid d, st, orNull ex, orNull note)]
         \<and> requests (store (patch_status E idp reqbody d)) =
             map (\<lambda>r. if of_nat (id_col r) = rid then set_fields st ex note (nowSQL E) r else r)
               (requests d)"
    by (auto simp: applied_def)
next
  assume "response (patch_status E idp reqbody d) \<noteq> Some (200, OkBody)"
  then show "store (patch_status E idp reqbody d) = d" by (rule patch_status_effect(2))
next
  show "\<forall>db \<in> set (observed (patch_status E idp reqbody d)).
        db = d \<or> db = store (patch_status E idp reqbody d)"
    using patch_status_observed[of E idp reqbody d] by blast
next
  let ?d1 = "store (patch_status E1 (Some rid) b1 d)"
  let ?d2 = "store (patch_status E2 (Some rid) b2 ?d1)"
  assume h: "matching rid d = r # rs \<and> status r = Some ''New''
        \<and> requestStatusUpdateSchema b1 = Inr (''In Progress'', ex1, n1)
        \<and> requestStatusUpdateSchema b2 = Inr (''Completed'', ex2, n2)
        \<and> response (patch_status E1 (Some rid) b1 d) = Some (200, OkBody)
        \<and> response (patch_status E2 (Some rid) b2 ?d1) = Some (200, OkBody)"
  then have m: "matching rid d = r # rs" and s: "status r = Some ''New''"
    and v1: "requestStatusUpdateSchema b1 = Inr (''In Progress'', ex1, n1)"
    and v2: "requestStatusUpdateSchema b2 = Inr (''Completed'', ex2, n2)"
    and r1: "response (patch_status E1 (Some rid) b1 d) = Some (200, OkBody)"
    and r2: "response (patch_status E2 (Some rid) b2 ?d1) = Some (200, OkBody)"
    by simp_all
  from patch_status_effect(1)[OF r1] v1
  have d1: "?d1 = applied E1 rid ''In Progress'' ex1 n1 d" by auto
  from patch_status_effect(1)[OF r2] v2
  have d2: "?d2 = applied E2 rid ''Completed'' ex2 n2 ?d1" by auto
  have o1: "old_status rid d = Some ''New''" by (simp add: old_status_def m s)
  from m have "r \<in> set (matching rid d)" by simp
  then have rm: "of_nat (id_col r) = rid" by (simp add: matching_def)
  have "matching rid ?d1 =
      map (\<lambda>r. if of_nat (id_col r) = rid then set_fields ''In Progress'' ex1 n1 (nowSQL E1) r else r) (r # rs)"
    unfolding d1 matching_applied m ..
  then have o2: "old_status rid ?d1 = Some ''In Progress''"
    by (simp add: old_status_def rm set_fields_eq)
  show "request_status_history ?d2 =
        request_status_history d @
          [(rid, Some ''New'', ''In Progress'', orNull ex1, orNull n1),
           (rid, Some ''In Progress'', ''Completed'', orNull ex2, orNull n2)]"
    unfolding d2 by (simp add: applied_def o2) (simp add: d1 applied_def o1)
qed

theorem status_update_history_witness:
  "request_status_history
     (store (patch_status ex_env_later (Some 1) ex_completed
        (store (patch_status ex_env (Some 1) ex_in_progress ex_db1)))) =
   [(1, Some ''New'', ''In Progress'', Some ''bob'', None),
    (1, Some ''In Progress'', ''Completed'', None, None)]"
proof -
  have "matching 1 ex_db1 = new_request_row ex_env ex_lot_transfer_data # []
        \<and> status (new_request_row ex_env ex_lot_transfer_data) = Some ''New''
        \<and> requestStatusUpdateSchema ex_in_progress = Inr (''In Progress'', Value ''bob'', Undefined)
        \<and> requestStatusUpdateSchema ex_completed = Inr (''Completed'', Undefined, Undefined)
        \<and> response (patch_status ex_env (Some 1) ex_in_progress ex_db1) = Some (200, OkBody)
        \<and> response (patch_status ex_env_later (Some 1) ex_completed
             (store (patch_status ex_env (Some 1) ex_in_progress ex_db1))) = Some (200, OkBody)"
    using ex_matching ex_db1_row(3) ex_in_progress_valid ex_completed_valid ex_first(1) ex_then_completed
    by blast
  with status_update_history[of ex_env "Some 1" ex_in_progress ex_db1 1
      "new_request_row ex_env ex_lot_transfer_data" "[]" ex_in_progress "Value ''bob''" Undefined
      ex_completed Undefined Undefined ex_env ex_env_later]
  have "request_status_history
     (store (patch_status ex_env_later (Some 1) ex_completed
        (store (patch_status ex_env (Some 1) ex_in_progress ex_db1)))) =
     request_status_history ex_db1 @
       [(1, Some ''New'', ''In Progress'', orNull (Value ''bob''), orNull Undefined),
        (1, Some ''In Progress'', ''Completed'', orNull Undefined, orNull Undefined)]"
    by blast
  then show ?thesis by (simp add: ex_db1_def with_request_def ex_db_def)
qed

text \<open>
  C6. As stated the claim fails: the optional descriptive fields are \<^verbatim>\<open>z.string()\<close> with no
  minimum length, so a payload whose facility is the empty string passes validation and the
  empty string is stored.
\<close>

theorem empty_string_accepted:
  "lookup ex_empty_facility ''facilityLocation'' = JStr ''''
   \<and> requestSchema ex_env ex_empty_facility = Inr ex_empty_facility_data
   \<and> facility_location (new_request_row ex_env ex_empty_facility_data) = Some ''''"
  by (simp add: ex_empty_facility_valid)
     (simp add: ex_empty_facility_def lookup_def new_request_row_def ex_empty_facility_data_def)

text \<open>
  C6, amended. For each of the seven optional descriptive string fields, a payload passes
  validation only if the value of the field is absent, null or a string, and any string, the
  empty one included, is as acceptable as null; the column then holds null for an absent or
  null value and the string itself for a string.
\<close>

theorem descriptive_fields_strings:
  "\<forall>(k, col) \<in> set descriptive_fields.
     accepts E (JObj ((k, JStr s) # kvs)) = accepts E (JObj ((k, JNull) # kvs))
   \<and> (requestSchema E reqbody = Inr data \<longrightarrow>
        (case lookup reqbody k of
           JUndefined \<Rightarrow> col (new_request_row E data) = None
         | JNull \<Rightarrow> col (new_request_row E data) = None
         | JStr s \<Rightarrow> col (new_request_row E data) = Some s
         | _ \<Rightarrow> False))"
  using string_as_acceptable_as_null stored_descriptive by fast

theorem descriptive_fields_strings_witness:
  "facility_location (new_request_row ex_env ex_empty_facility_data) = Some []
   \<and> jira_link (new_request_row ex_env ex_empty_facility_data) = None"
proof
  note all = descriptive_fields_strings[of ex_env "[]" "[]" ex_empty_facility ex_empty_facility_data]
  have m: "(''facilityLocation'', facility_location) \<in> set descriptive_fields"
    by (simp add: descriptive_fields_def)
  have l: "lookup ex_empty_facility ''facilityLocation'' = JStr []"
    by (simp add: ex_empty_facility_def lookup_def)
  from bspec[OF all m, unfolded prod.case, THEN conjunct2] have "requestSchema ex_env ex_empty_facility = Inr ex_empty_facility_data \<longrightarrow>
        (case lookup ex_empty_facility ''facilityLocation'' of
           JUndefined \<Rightarrow> facility_location (new_request_row ex_env ex_empty_facility_data) = None
         | JNull \<Rightarrow> facility_location (new_request_row ex_env ex_empty_facility_data) = None
         | JStr s \<Rightarrow> facility_location (new_request_row ex_env ex_empty_facility_data) = Some s
         | _ \<Rightarrow> False)" .
  with ex_empty_facility_valid
  show "facility_location (new_request_row ex_env ex_empty_facility_data) = Some []"
    unfolding l by simp
next
  note all = descriptive_fields_strings[of ex_env "[]" "[]" ex_empty_facility ex_empty_facility_data]
  have m: "(''jiraLink'', jira_link) \<in> set descriptive_fields"
    by (simp add: descriptive_fields_def)
  have l: "lookup ex_empty_facility ''jiraLink'' = JUndefined"
    by (simp add: ex_empty_facility_def lookup_def)
  from bspec[OF all m, unfolded prod.case, THEN conjunct2] have "requestSchema ex_env ex_empty_facility = Inr ex_empty_facility_data \<longrightarrow>
        (case lookup ex_empty_facility ''jiraLink'' of
           JUndefined \<Rightarrow> jira_link (new_request_row ex_env ex_empty_facility_data) = None
         | JNull \<Rightarrow> jira_link (new_request_row ex_env ex_empty_facility_data) = None
         | JStr s \<Rightarrow> jira_link (new_request_row ex_env ex_empty_facility_data) = Some s
         | _ \<Rightarrow> False)" .
  with ex_empty_facility_valid
  show "jira_link (new_request_row ex_env ex_empty_facility_data) = None"
    unfolding l by simp
qed






text \<open>
  C9. A status update that answers 200 leaves the lots and the sampling lots as they were,
  keeps the number of request rows, leaves every request row with another identifier as it
  was, and changes in the rows of the request only the workflow columns: status and update
  time always, the executor when the body has the key, the start time on entering
  \<^verbatim>\<open>In Progress\<close>, the completion time on entering \<^verbatim>\<open>Completed\<close>, the issue note (the note of
  the body, or null) on entering \<^verbatim>\<open>Issue\<close>.
\<close>

theorem status_update_frame:
  assumes "response (patch_status E idp reqbody d) = Some (200, OkBody)"
  shows "\<exists>rid st ex note. idp = Some rid \<and> requestStatusUpdateSchema reqbody = Inr (st, ex, note)
     \<and> lots (store (patch_status E idp reqbody d)) = lots d
     \<and> sampling_lots (store (patch_status E idp reqbody d)) = sampling_lots d
     \<and> length (requests (store (patch_status E idp reqbody d))) = length (requests d)
     \<and> (\<forall>i<length (requests d).
          requests (store (patch_status E idp reqbody d)) ! i =
            (if of_nat (id_col (requests d ! i)) = rid
             then workflow_update E st ex note (requests d ! i)
             else requests d ! i)
          \<and> same_request_data (requests d ! i) (requests (store (patch_status E idp reqbody d)) ! i))"
proof -
  from patch_status_effect(1)[OF assms] obtain rid st ex nt where
    h: "idp = Some rid" "requestStatusUpdateSchema reqbody = Inr (st, ex, nt)"
       "store (patch_status E idp reqbody d) = applied E rid st ex nt d" by blast
  show ?thesis
    apply (rule exI[of _ rid], rule exI[of _ st], rule exI[of _ ex], rule exI[of _ nt])
    unfolding h(3)
    using h(1,2)
    apply (simp add: applied_def set_fields_eq workflow_update_def same_request_data_def)
    done
qed

theorem status_update_frame_witness:
  "lots (store (patch_status ex_env (Some 1) ex_issue ex_db1)) = lots ex_db1
   \<and> sampling_lots (store (patch_status ex_env (Some 1) ex_issue ex_db1)) = sampling_lots ex_db1
   \<and> requests (store (patch_status ex_env (Some 1) ex_issue ex_db1)) ! 0 =
       (requests ex_db1 ! 0)\<lparr>status := Some ''Issue'', updated_at := nowSQL ex_env,
                              issue_note := Some ''damaged''\<rparr>"
proof -
  from status_update_frame[OF ex_issue_ok] obtain rid st ex nt where
    h: "Some (1::rat) = Some rid" "requestStatusUpdateSchema ex_issue = Inr (st, ex, nt)"
       "lots (store (patch_status ex_env (Some 1) ex_issue ex_db1)) = lots ex_db1"
       "sampling_lots (store (patch_status ex_env (Some 1) ex_issue ex_db1)) = sampling_lots ex_db1"
       "\<forall>i<length (requests ex_db1).
          requests (store (patch_status ex_env (Some 1) ex_issue ex_db1)) ! i =
            (if of_nat (id_col (requests ex_db1 ! i)) = rid
             then workflow_update ex_env st ex nt (requests ex_db1 ! i)
             else requests ex_db1 ! i)
          \<and> same_request_data (requests ex_db1 ! i)
               (requests (store (patch_status ex_env (Some 1) ex_issue ex_db1)) ! i)"
    by blast
  from h(1) have rid: "rid = 1" by simp
  from h(2) ex_issue_valid have v: "st = ''Issue''" "ex = Undefined" "nt = Value ''damaged''" by simp_all
  have "0 < length (requests ex_db1)" by (simp add: ex_db1_row)
  with h(5) have "requests (store (patch_status ex_env (Some 1) ex_issue ex_db1)) ! 0 =
            (if of_nat (id_col (requests ex_db1 ! 0)) = rid
             then workflow_update ex_env st ex nt (requests ex_db1 ! 0)
             else requests ex_db1 ! 0)"
    by blast
  then have "requests (store (patch_status ex_env (Some 1) ex_issue ex_db1)) ! 0 =
       (requests ex_db1 ! 0)\<lparr>status := Some ''Issue'', updated_at := nowSQL ex_env,
                              issue_note := Some ''damaged''\<rparr>"
    by (simp add: rid v ex_db1_row workflow_update_def)
  with h(3,4) show ?thesis by blast
qed

text \<open>
  C10. After a request has been created, the lot identifiers that the create handler has
  added to the table of its line items (lots or sampling lots) are, in order, the trimmed lot
  identifiers of the line items of the payload, and the other table has no new row. So there
  is an input, a lot identifier of three spaces, that passes validation, the string not being
  empty, and is stored as the empty string.
\<close>

theorem stored_lot_id_trimmed:
  assumes "requestSchema E reqbody = Inr data" and "\<forall>n<5. fault E n = None"
  shows "(samplingLots_of data = None \<longrightarrow>
            lot_id_column (lots (store (post_requests E reqbody d))) =
              lot_id_column (lots d) @ map trim (payload_lot_ids reqbody ''lots'')
          \<and> sampling_lots (store (post_requests E reqbody d)) = sampling_lots d)
       \<and> (lots_of data = None \<longrightarrow>
            sampling_lot_id_column (sampling_lots (store (post_requests E reqbody d))) =
              sampling_lot_id_column (sampling_lots d) @ map trim (payload_lot_ids reqbody ''samplingLots'')
          \<and> lots (store (post_requests E reqbody d)) = lots d)
       \<and> requestSchema ex_env ex_blank_lot = Inr ex_blank_lot_data
       \<and> payload_lot_ids ex_blank_lot ''lots'' = [''   '']
       \<and> lots (store (post_requests ex_env ex_blank_lot ex_db)) = [(1, '''', Some 5, None)]"
proof (intro conjI impI)
  note ok = post_requests_ok[OF assms, of d]
  note ch = requestSchema_children[OF assms(1)]
  {
    assume n: "samplingLots_of data = None"
    with ch obtain ls where ls: "lots_of data = Some ls" by auto
    from requestSchema_lots(1)[OF assms(1) ls] obtain xs where
      xs: "lookup reqbody ''lots'' = JArr xs" "z_items lotSchema [Key ''lots''] 0 xs = Inr ls" by blast
    show "lot_id_column (lots (store (post_requests E reqbody d))) =
              lot_id_column (lots d) @ map trim (payload_lot_ids reqbody ''lots'')"
      by (simp add: ok with_request_def ls lot_id_column_def lot_rows_def payload_lot_ids_def xs(1)
          payload_lot_ids_lots[OF xs(2)] comp_def)
    show "sampling_lots (store (post_requests E reqbody d)) = sampling_lots d"
      by (simp add: ok with_request_def n)
  }
  {
    assume n: "lots_of data = None"
    with ch obtain sl where sl: "samplingLots_of data = Some sl" by auto
    from requestSchema_lots(2)[OF assms(1) sl] obtain xs where
      xs: "lookup reqbody ''samplingLots'' = JArr xs"
          "z_items samplingLotSchema [Key ''samplingLots''] 0 xs = Inr sl" by blast
    show "sampling_lot_id_column (sampling_lots (store (post_requests E reqbody d))) =
              sampling_lot_id_column (sampling_lots d) @ map trim (payload_lot_ids reqbody ''samplingLots'')"
      by (simp add: ok with_request_def sl sampling_lot_id_column_def sampling_lot_rows_def
          payload_lot_ids_def xs(1) payload_lot_ids_sampling[OF xs(2)] comp_def)
    show "lots (store (post_requests E reqbody d)) = lots d"
      by (simp add: ok with_request_def n)
  }
  show "requestSchema ex_env ex_blank_lot = Inr ex_blank_lot_data" by (rule ex_blank_lot_valid)
  show "payload_lot_ids ex_blank_lot ''lots'' = [''   '']"
    by (simp add: payload_lot_ids_def ex_blank_lot_def lookup_def)
  have "\<forall>n<5. fault ex_env n = None" by (simp add: ex_env_def)
  from post_requests_ok[OF ex_blank_lot_valid this, of ex_db]
  show "lots (store (post_requests ex_env ex_blank_lot ex_db)) = [(1, '''', Some 5, None)]"
    by (simp add: with_request_def ex_blank_lot_data_def ex_db_def lot_rows_def trim_def is_space_def
        ex_env_def)
qed

theorem stored_lot_id_trimmed_witness:
  "lot_id_column (lots (store (post_requests ex_env ex_lot_transfer ex_db))) = [''L1'']"
proof -
  have f: "\<forall>n<5. fault ex_env n = None" by (simp add: ex_env_def)
  have n: "samplingLots_of ex_lot_transfer_data = None" by (simp add: ex_lot_transfer_data_def)
  from stored_lot_id_trimmed[OF ex_lot_transfer_valid f, of ex_db] n
  have "lot_id_column (lots (store (post_requests ex_env ex_lot_transfer ex_db))) =
              lot_id_column (lots ex_db) @ map trim (payload_lot_ids ex_lot_transfer ''lots'')"
    by blast
  then show ?thesis
    by (simp add: ex_db_def lot_id_column_def payload_lot_ids_def ex_lot_transfer_def lookup_def
        trim_def is_space_def)
qed

end
